theory Spec2Isabelle
  imports Main "HOL-Library.Word"
begin

section \<open>Go values: panics, results, integer remainder\<close>

text \<open>
  A Go function either returns or panics. A panic unwinds the stack, but every
  assignment made before it stays: operations on mutable objects therefore yield an
  outcome together with the object (or the whole store) as it is at that point.
\<close>

datatype go_panic =
    NilPointerDereference
  | IntegerDivideByZero
  | IndexOutOfRange
  | SliceBoundsOutOfRange
  | InterfaceConversion

datatype 'a outcome = Panic go_panic | Return 'a

type_synonym int32 = "32 word"
type_synonym byte = "8 word"

text \<open>Go's \<open>%\<close> truncates towards zero: the remainder has the sign of the dividend.\<close>

definition go_rem :: "int \<Rightarrow> int \<Rightarrow> int" where
  "go_rem a b = sgn a * (\<bar>a\<bar> mod \<bar>b\<bar>)"

section \<open>Configuration (package config/v2)\<close>

text \<open>
  Modelled from the spec: the declarations of \<open>v2.WasmPluginConfig\<close> and
  \<open>v2.WasmVmConfig\<close> are not among the sources. The spec lists the fields
  \<open>{PluginName, InstanceNum, VmConfig: {Engine, Path, Url, Cpu, Mem}}\<close>; the code
  compares \<open>VmConfig\<close> with \<open>nil\<close> and dereferences it, so it is a pointer, here an
  option.
\<close>

record WasmVmConfig =
  Engine :: string
  Path :: string
  Url :: string
  Cpu :: int
  Mem :: int

record WasmPluginConfig =
  PluginName :: string
  InstanceNum :: int
  VmConfig :: "WasmVmConfig option"

section \<open>The execution engine, as the plugin sees it\<close>

text \<open>
  Engines, compiled modules and instances are handles. The engine, the byte loaders and
  \<open>runtime.NumCPU\<close> are external; one value of \<open>env\<close> fixes their answers for the
  duration of one operation. \<open>NewInstance env m i\<close> is the answer of the \<open>i\<close>-th call
  of \<open>m.NewInstance()\<close> made by that operation, \<open>None\<close> for \<open>nil\<close>.
\<close>

type_synonym WasmVM = nat
type_synonym WasmModule = nat
type_synonym WasmInstance = nat

record env =
  NumCPU :: int
  GetWasmEngine :: "string \<Rightarrow> WasmVM option"
  loadWasmBytesFromPath :: "string \<Rightarrow> byte list"
  loadWasmBytesFromUrl :: "string \<Rightarrow> byte list"
  NewModule :: "WasmVM \<Rightarrow> byte list \<Rightarrow> WasmModule option"
  NewInstance :: "WasmModule \<Rightarrow> nat \<Rightarrow> WasmInstance option"

section \<open>The plugin and its instance pool (pkg/wasm/plugin.go)\<close>

datatype error =
    ErrEngineNotFound
  | ErrWasmBytesLoad
  | ErrInstanceCreate
  | ErrModuleCreate
  | ErrEmptyPluginName
  | ErrUnexpectedType
  | ErrPluginNotFound

text \<open>
  \<open>instanceNum\<close> is a Go \<open>int\<close>; the code only ever assigns it a value between 0 and
  the requested number, so no wrap-around is written out. The cursor and the occupancy
  counter are \<open>int32\<close> and do wrap.
\<close>

record wasmPluginImpl =
  config :: WasmPluginConfig
  instanceNum :: int
  instanceWrappers :: "WasmInstance list"
  instanceWrappersIdx :: int32
  occupy :: int32
  vm :: WasmVM
  wasmBytes :: "byte list"
  module :: WasmModule

text \<open>
  The creation loop of \<open>EnsureInstanceNum\<close>: \<open>i\<close> is the loop counter, the third
  argument the number of iterations left, \<open>acc\<close> the slice \<open>newInstance\<close>. A failed
  creation is skipped (\<open>continue\<close>).
\<close>

fun newInstance_loop ::
  "(nat \<Rightarrow> WasmInstance option) \<Rightarrow> nat \<Rightarrow> nat \<Rightarrow> WasmInstance list \<Rightarrow> WasmInstance list" where
  "newInstance_loop mk i 0 acc = acc"
| "newInstance_loop mk i (Suc k) acc =
     (case mk i of
        None \<Rightarrow> newInstance_loop mk (Suc i) k acc
      | Some instance \<Rightarrow> newInstance_loop mk (Suc i) k (acc @ [instance]))"

text \<open>
  Shrinking re-slices \<open>instanceWrappers[:num]\<close>. Go panics when \<open>num\<close> exceeds the
  capacity; the model has no capacity and panics as soon as \<open>num\<close> exceeds the length.
  The branch is taken only for \<open>num < instanceNum\<close>, so this differs from Go only in
  states where the list is shorter than \<open>instanceNum\<close>.
\<close>

definition EnsureInstanceNum :: "env \<Rightarrow> int \<Rightarrow> wasmPluginImpl \<Rightarrow> int outcome \<times> wasmPluginImpl" where
  "EnsureInstanceNum e num w =
     (if num \<le> 0 \<or> num = instanceNum w then (Return (instanceNum w), w)
      else if num < instanceNum w then
        (if nat num \<le> length (instanceWrappers w)
         then (Return num,
               w\<lparr>instanceWrappers := take (nat num) (instanceWrappers w), instanceNum := num\<rparr>)
         else (Panic SliceBoundsOutOfRange, w))
      else
        (let numToCreate = num - instanceNum w;
             newInstance = newInstance_loop (NewInstance e (module w)) 0 (nat numToCreate) []
         in (Return (instanceNum w + int (length newInstance)),
             w\<lparr>instanceWrappers := instanceWrappers w @ newInstance,
               instanceNum := instanceNum w + int (length newInstance)\<rparr>)))"

text \<open>
  \<open>GetInstance\<close> reads the cursor as a signed 32-bit number, reduces it with Go's
  remainder and indexes the slice; the length zero and a negative index panic before
  anything is written.
\<close>

definition GetInstance :: "wasmPluginImpl \<Rightarrow> WasmInstance outcome \<times> wasmPluginImpl" where
  "GetInstance w =
     (let n = int (length (instanceWrappers w)) in
      if n = 0 then (Panic IntegerDivideByZero, w)
      else
        (let idx = go_rem (sint (instanceWrappersIdx w)) n in
         if idx < 0 \<or> n \<le> idx then (Panic IndexOutOfRange, w)
         else (Return (instanceWrappers w ! nat idx),
               w\<lparr>instanceWrappersIdx := instanceWrappersIdx w + 1, occupy := occupy w + 1\<rparr>)))"

definition ReleaseInstance :: "WasmInstance \<Rightarrow> wasmPluginImpl \<Rightarrow> wasmPluginImpl" where
  "ReleaseInstance instanceWrapper w = w\<lparr>occupy := occupy w - 1\<rparr>"

text \<open>
  \<open>NewWasmPlugin\<close>, up to the allocation of the result: the value of the new plugin
  object. \<open>SetCpuLimit\<close> and \<open>SetMemLimit\<close> do nothing.
\<close>

definition NewWasmPlugin :: "env \<Rightarrow> WasmPluginConfig \<Rightarrow> (error + wasmPluginImpl) outcome" where
  "NewWasmPlugin e wasmConfig0 =
     (let instanceNum0 = (if InstanceNum wasmConfig0 \<le> 0 then NumCPU e else InstanceNum wasmConfig0);
          wasmConfig = wasmConfig0\<lparr>InstanceNum := instanceNum0\<rparr>
      in case VmConfig wasmConfig of
           None \<Rightarrow> Panic NilPointerDereference
         | Some vc \<Rightarrow>
             (case GetWasmEngine e (Engine vc) of
                None \<Rightarrow> Return (Inl ErrEngineNotFound)
              | Some vm0 \<Rightarrow>
                  (let bytes = (if Path vc \<noteq> [] then loadWasmBytesFromPath e (Path vc)
                                else loadWasmBytesFromUrl e (Url vc))
                   in if bytes = [] then Return (Inl ErrWasmBytesLoad)
                      else
                        (case NewModule e vm0 bytes of
                           None \<Rightarrow> Return (Inl ErrModuleCreate)
                         | Some module0 \<Rightarrow>
                             (let plugin = \<lparr>config = wasmConfig, instanceNum = 0,
                                            instanceWrappers = [], instanceWrappersIdx = 0,
                                            occupy = 0, vm = vm0, wasmBytes = bytes,
                                            module = module0\<rparr>
                              in case EnsureInstanceNum e (InstanceNum wasmConfig) plugin of
                                   (Panic p, _) \<Rightarrow> Panic p
                                 | (Return actual, plugin') \<Rightarrow>
                                     if actual = 0 then Return (Inl ErrInstanceCreate)
                                     else Return (Inr plugin'))))))"

text \<open>A caller making \<open>k\<close> consecutive \<open>GetInstance\<close> calls and collecting the answers.\<close>

fun GetInstance_times :: "nat \<Rightarrow> wasmPluginImpl \<Rightarrow> WasmInstance list outcome \<times> wasmPluginImpl" where
  "GetInstance_times 0 w = (Return [], w)"
| "GetInstance_times (Suc k) w =
     (case GetInstance w of
        (Panic p, w') \<Rightarrow> (Panic p, w')
      | (Return i, w') \<Rightarrow>
          (case GetInstance_times k w' of
             (Panic p, w'') \<Rightarrow> (Panic p, w'')
           | (Return is, w'') \<Rightarrow> (Return (i # is), w'')))"

text \<open>
  The states a plugin object can be in: built by \<open>NewWasmPlugin\<close>, then resized,
  acquired from and released to, in any order, as long as no call panics.
\<close>

inductive reachable :: "wasmPluginImpl \<Rightarrow> bool" where
  new: "NewWasmPlugin e c = Return (Inr w) \<Longrightarrow> reachable w"
| ensure: "reachable w \<Longrightarrow> EnsureInstanceNum e num w = (Return n, w') \<Longrightarrow> reachable w'"
| get: "reachable w \<Longrightarrow> GetInstance w = (Return i, w') \<Longrightarrow> reachable w'"
| release: "reachable w \<Longrightarrow> reachable (ReleaseInstance i w)"

section \<open>The store: plugin objects, wrappers and the registry (manager)\<close>

text \<open>
  Plugins and wrappers are objects behind pointers: a plugin is resized in place while
  a wrapper points to it, and \<open>Update\<close> compares plugins by identity. The store maps
  references to objects; a reference below the allocation counter is a live object.
  Observers are known by an identifier.

  The trace lists, in order, what happens at the boundaries of these objects: the
  callbacks made to observers, the assignment that makes a plugin the wrapper's current
  one, the calls of \<open>Clear\<close>, and the manager's calls of \<open>NewWasmPlugin\<close> and of
  \<open>EnsureInstanceNum\<close>. Log messages are not modelled.
\<close>

type_synonym plugin_ref = nat
type_synonym wrapper_ref = nat
type_synonym WasmPluginHandler = nat

datatype event =
    OnConfigUpdate WasmPluginHandler WasmPluginConfig
  | OnPluginStart WasmPluginHandler "plugin_ref option"
  | OnPluginDestroy WasmPluginHandler "plugin_ref option"
  | PluginPublished wrapper_ref plugin_ref
  | Clear plugin_ref
  | Called_NewWasmPlugin WasmPluginConfig
  | Called_EnsureInstanceNum plugin_ref int

record pluginWrapper =
  plugin :: "plugin_ref option"
  config :: WasmPluginConfig
  pluginHandlers :: "WasmPluginHandler list"

text \<open>A value of the registry's \<open>sync.Map\<close> is an \<open>interface{}\<close>: a wrapper or anything else.\<close>

datatype map_entry = Wrapper wrapper_ref | Other

record world =
  pluginMap :: "string \<rightharpoonup> map_entry"
  wrappers :: "wrapper_ref \<Rightarrow> pluginWrapper"
  plugins :: "plugin_ref \<Rightarrow> wasmPluginImpl"
  nwrappers :: nat
  nplugins :: nat
  trace :: "event list"

definition emit :: "event list \<Rightarrow> world \<Rightarrow> world" where
  "emit evs s = s\<lparr>trace := trace s @ evs\<rparr>"

subsection \<open>pluginWrapper\<close>

definition GetPlugin :: "wrapper_ref \<Rightarrow> world \<Rightarrow> plugin_ref option" where
  "GetPlugin w s = plugin (wrappers s w)"

definition GetConfig :: "wrapper_ref \<Rightarrow> world \<Rightarrow> WasmPluginConfig" where
  "GetConfig w s = config (wrappers s w)"

definition RegisterPluginHandler :: "wrapper_ref \<Rightarrow> WasmPluginHandler option \<Rightarrow> world \<Rightarrow> world" where
  "RegisterPluginHandler w pluginHandler s =
     (case pluginHandler of
        None \<Rightarrow> s
      | Some h \<Rightarrow>
          (let pw = wrappers s w;
               s1 = s\<lparr>wrappers := (wrappers s)(w := pw\<lparr>pluginHandlers := pluginHandlers pw @ [h]\<rparr>)\<rparr>
           in emit [OnConfigUpdate h (config pw), OnPluginStart h (plugin pw)] s1))"

text \<open>
  \<open>Update\<close>. The three loops over \<open>pluginHandlers\<close> call one callback per observer,
  in registration order. \<open>oldPlugin.Clear()\<close> on a nil interface panics.
\<close>

definition Update ::
  "wrapper_ref \<Rightarrow> WasmPluginConfig \<Rightarrow> plugin_ref option \<Rightarrow> world \<Rightarrow> unit outcome \<times> world" where
  "Update w config0 plugin0 s =
     (if PluginName config0 = [] \<or> PluginName config0 \<noteq> PluginName (GetConfig w s)
      then (Return (), s)
      else
        (let handlers = pluginHandlers (wrappers s w);
             s1 = emit (map (\<lambda>handler. OnConfigUpdate handler config0) handlers) s;
             s2 = s1\<lparr>wrappers := (wrappers s1)(w := (wrappers s1 w)\<lparr>config := config0\<rparr>)\<rparr>
         in case plugin0 of
              None \<Rightarrow> (Return (), s2)
            | Some newp \<Rightarrow>
                (let oldPlugin = GetPlugin w s2 in
                 if Some newp = oldPlugin then (Return (), s2)
                 else
                   (let s3 = emit (map (\<lambda>handler. OnPluginStart handler (Some newp)) handlers) s2;
                        s4 = emit [PluginPublished w newp]
                               (s3\<lparr>wrappers := (wrappers s3)(w := (wrappers s3 w)\<lparr>plugin := Some newp\<rparr>)\<rparr>);
                        s5 = emit (map (\<lambda>handler. OnPluginDestroy handler oldPlugin) handlers) s4
                    in case oldPlugin of
                         None \<Rightarrow> (Panic NilPointerDereference, s5)
                       | Some oldp \<Rightarrow> (Return (), emit [Clear oldp] s5)))))"

subsection \<open>wasmMangerImpl\<close>

definition shouldCreateNewPlugin :: "WasmPluginConfig \<Rightarrow> WasmPluginConfig \<Rightarrow> bool" where
  "shouldCreateNewPlugin newConfig oldConfig =
     (case VmConfig newConfig of
        None \<Rightarrow> False
      | Some newVm \<Rightarrow>
          (case VmConfig oldConfig of
             None \<Rightarrow> False
           | Some oldVm \<Rightarrow>
               if Engine newVm \<noteq> Engine oldVm \<or> Path newVm \<noteq> Path oldVm \<or> Url newVm \<noteq> Url oldVm
               then True
               else False))"

text \<open>\<open>NewWasmPlugin\<close> as the manager calls it: the new object is allocated in the store.\<close>

definition NewWasmPlugin_alloc ::
  "env \<Rightarrow> WasmPluginConfig \<Rightarrow> world \<Rightarrow> (error + plugin_ref) outcome \<times> world" where
  "NewWasmPlugin_alloc e wasmConfig s =
     (let s1 = emit [Called_NewWasmPlugin wasmConfig] s in
      case NewWasmPlugin e wasmConfig of
        Panic p \<Rightarrow> (Panic p, s1)
      | Return (Inl err) \<Rightarrow> (Return (Inl err), s1)
      | Return (Inr w) \<Rightarrow>
          (Return (Inr (nplugins s1)),
           s1\<lparr>plugins := (plugins s1)(nplugins s1 := w), nplugins := Suc (nplugins s1)\<rparr>))"

text \<open>\<open>EnsureInstanceNum\<close> called on the plugin object behind a reference.\<close>

definition EnsureInstanceNum_at ::
  "env \<Rightarrow> plugin_ref \<Rightarrow> int \<Rightarrow> world \<Rightarrow> int outcome \<times> world" where
  "EnsureInstanceNum_at e p num s =
     (let s1 = emit [Called_EnsureInstanceNum p num] s in
      case EnsureInstanceNum e num (plugins s1 p) of
        (r, w') \<Rightarrow> (r, s1\<lparr>plugins := (plugins s1)(p := w')\<rparr>))"

text \<open>
  \<open>updateWasm\<close>. \<open>reflect.DeepEqual\<close> on two configurations compares the fields and,
  behind the \<open>VmConfig\<close> pointers, the pointed-to structs: equality of the records.
  After either path the code reads \<open>newConfig.VmConfig.Cpu\<close>, which panics on a nil
  \<open>VmConfig\<close>; the limit setters themselves do nothing.
\<close>

definition updateWasm :: "env \<Rightarrow> wrapper_ref \<Rightarrow> WasmPluginConfig \<Rightarrow> world \<Rightarrow> unit outcome \<times> world" where
  "updateWasm e pw newConfig s =
     (let oldConfig = GetConfig pw s in
      if newConfig = oldConfig then (Return (), s)
      else
        (let after = (\<lambda>p s'. case VmConfig newConfig of
                                None \<Rightarrow> (Panic NilPointerDereference, s')
                              | Some _ \<Rightarrow> Update pw newConfig p s')
         in if shouldCreateNewPlugin newConfig (GetConfig pw s) then
              (case NewWasmPlugin_alloc e newConfig s of
                 (Panic p, s1) \<Rightarrow> (Panic p, s1)
               | (Return (Inl err), s1) \<Rightarrow> (Return (), s1)
               | (Return (Inr newp), s1) \<Rightarrow> after (Some newp) s1)
            else
              (case GetPlugin pw s of
                 None \<Rightarrow> (Panic NilPointerDereference, s)
               | Some p \<Rightarrow>
                   (case EnsureInstanceNum_at e p (InstanceNum newConfig) s of
                      (Panic q, s1) \<Rightarrow> (Panic q, s1)
                    | (Return actualNum, s1) \<Rightarrow>
                        if actualNum = 0 then (Return (), s1) else after (Some p) s1))))"

definition AddOrUpdateWasm :: "env \<Rightarrow> WasmPluginConfig \<Rightarrow> world \<Rightarrow> error option outcome \<times> world" where
  "AddOrUpdateWasm e config0 s =
     (if PluginName config0 = [] then (Return (Some ErrEmptyPluginName), s)
      else
        (case pluginMap s (PluginName config0) of
           Some v \<Rightarrow>
             (case v of
                Other \<Rightarrow> (Return (Some ErrUnexpectedType), s)
              | Wrapper pw \<Rightarrow>
                  (case updateWasm e pw config0 s of
                     (Panic p, s1) \<Rightarrow> (Panic p, s1)
                   | (Return _, s1) \<Rightarrow> (Return None, s1)))
         | None \<Rightarrow>
             (case NewWasmPlugin_alloc e config0 s of
                (Panic p, s1) \<Rightarrow> (Panic p, s1)
              | (Return (Inl err), s1) \<Rightarrow> (Return (Some err), s1)
              | (Return (Inr newp), s1) \<Rightarrow>
                  (let pw = nwrappers s1;
                       s2 = s1\<lparr>wrappers := (wrappers s1)
                                 (pw := \<lparr>plugin = Some newp, config = config0, pluginHandlers = []\<rparr>),
                               nwrappers := Suc pw\<rparr>;
                       s3 = (case pluginMap s2 (PluginName config0) of
                               None \<Rightarrow> s2\<lparr>pluginMap := (pluginMap s2)(PluginName config0 \<mapsto> Wrapper pw)\<rparr>
                             | Some _ \<Rightarrow> s2)
                   in (Return None, s3)))))"

definition GetWasmPluginWrapperByName :: "string \<Rightarrow> world \<Rightarrow> wrapper_ref option" where
  "GetWasmPluginWrapperByName pluginName s =
     (if pluginName = [] then None
      else
        (case pluginMap s pluginName of
           Some (Wrapper pw) \<Rightarrow> Some pw
         | Some Other \<Rightarrow> None
         | None \<Rightarrow> None))"

definition UninstallWasmPluginByName :: "string \<Rightarrow> world \<Rightarrow> error option outcome \<times> world" where
  "UninstallWasmPluginByName pluginName s =
     (case pluginMap s pluginName of
        None \<Rightarrow> (Return (Some ErrPluginNotFound), s)
      | Some v \<Rightarrow>
          (let s1 = s\<lparr>pluginMap := (pluginMap s)(pluginName := None)\<rparr> in
           case v of
             Other \<Rightarrow> (Panic InterfaceConversion, s1)
           | Wrapper pw \<Rightarrow>
               (case GetPlugin pw s1 of
                  None \<Rightarrow> (Panic NilPointerDereference, s1)
                | Some p \<Rightarrow> (Return None, emit [Clear p] s1))))"

section \<open>The ABI dispatcher (package proxywasm)\<close>

text \<open>
  Modelled from the spec: package \<open>wasmer\<close> of go-ext-wasm (\<open>wasm.Value\<close>, its
  \<open>ToI32\<close>, the type of \<open>Instance.Exports\<close>) is not among the sources. The export
  table is a map from names to callables, absent for a name without export; a callable
  takes the integer arguments and yields a value or an error; a value is read as the
  32-bit code it holds.
\<close>

datatype go_error = errors_New string | EngineError nat

record Value =
  ToI32 :: int32

text \<open>
  An instance records the calls made into the extension (\<open>invoked\<close>), so that a
  dispatcher that returns without calling can be told from one that calls.
\<close>

record Instance =
  Exports :: "string \<rightharpoonup> (int32 list \<Rightarrow> go_error + Value)"
  invoked :: "(string \<times> int32 list) list"

record wasmContext =
  wasm_contextId :: int32
  wasm_instance :: Instance

text \<open>The call \<open>ff(args...)\<close> of the export found under \<open>name\<close>.\<close>

definition call_export ::
  "string \<Rightarrow> (int32 list \<Rightarrow> go_error + Value) \<Rightarrow> int32 list \<Rightarrow> wasmContext
   \<Rightarrow> (go_error + Value) \<times> wasmContext" where
  "call_export name ff args wasm =
     (ff args,
      wasm\<lparr>wasm_instance := (wasm_instance wasm)\<lparr>invoked := invoked (wasm_instance wasm) @ [(name, args)]\<rparr>\<rparr>)"

text \<open>
  The 29 methods of \<open>wasmContext\<close>, in the order of the source. \<open>start\<close> is the
  method \<open>_start\<close>.
\<close>

definition start :: "wasmContext \<Rightarrow> go_error option \<times> wasmContext" where
  "start wasm =
     (case Exports (wasm_instance wasm) ''_start'' of
        None \<Rightarrow> (Some (errors_New ''func _start not found''), wasm)
      | Some ff \<Rightarrow>
          (case call_export ''_start'' ff [] wasm of
             (Inl err, wasm') \<Rightarrow> (Some err, wasm')
           | (Inr _, wasm') \<Rightarrow> (None, wasm')))"

definition proxy_on_context_create :: "wasmContext \<Rightarrow> int32 \<Rightarrow> int32 \<Rightarrow> go_error option \<times> wasmContext" where
  "proxy_on_context_create wasm contextId parentContextId =
     (case Exports (wasm_instance wasm) ''proxy_on_context_create'' of
        None \<Rightarrow> (Some (errors_New ''func proxy_on_context_create not found''), wasm)
      | Some ff \<Rightarrow>
          (case call_export ''proxy_on_context_create'' ff [contextId, parentContextId] wasm of
             (Inl err, wasm') \<Rightarrow> (Some err, wasm')
           | (Inr _, wasm') \<Rightarrow> (None, wasm')))"

definition proxy_on_vm_start :: "wasmContext \<Rightarrow> int32 \<Rightarrow> int32 \<Rightarrow> (int32 \<times> go_error option) \<times> wasmContext" where
  "proxy_on_vm_start wasm rootContextId configurationSize =
     (case Exports (wasm_instance wasm) ''proxy_on_vm_start'' of
        None \<Rightarrow> ((0, Some (errors_New ''func proxy_on_vm_start not found'')), wasm)
      | Some ff \<Rightarrow>
          (case call_export ''proxy_on_vm_start'' ff [rootContextId, configurationSize] wasm of
             (Inl err, wasm') \<Rightarrow> ((0, Some err), wasm')
           | (Inr res, wasm') \<Rightarrow> ((ToI32 res, None), wasm')))"

definition proxy_on_done :: "wasmContext \<Rightarrow> int32 \<Rightarrow> (int32 \<times> go_error option) \<times> wasmContext" where
  "proxy_on_done wasm contextId =
     (case Exports (wasm_instance wasm) ''proxy_on_done'' of
        None \<Rightarrow> ((0, Some (errors_New ''func proxy_on_done not found'')), wasm)
      | Some ff \<Rightarrow>
          (case call_export ''proxy_on_done'' ff [contextId] wasm of
             (Inl err, wasm') \<Rightarrow> ((0, Some err), wasm')
           | (Inr res, wasm') \<Rightarrow> ((ToI32 res, None), wasm')))"

definition proxy_on_log :: "wasmContext \<Rightarrow> int32 \<Rightarrow> go_error option \<times> wasmContext" where
  "proxy_on_log wasm contextId =
     (case Exports (wasm_instance wasm) ''proxy_on_log'' of
        None \<Rightarrow> (Some (errors_New ''func proxy_on_log not found''), wasm)
      | Some ff \<Rightarrow>
          (case call_export ''proxy_on_log'' ff [contextId] wasm of
             (Inl err, wasm') \<Rightarrow> (Some err, wasm')
           | (Inr _, wasm') \<Rightarrow> (None, wasm')))"

definition proxy_on_delete :: "wasmContext \<Rightarrow> int32 \<Rightarrow> go_error option \<times> wasmContext" where
  "proxy_on_delete wasm contextId =
     (case Exports (wasm_instance wasm) ''proxy_on_delete'' of
        None \<Rightarrow> (Some (errors_New ''func proxy_on_delete not found''), wasm)
      | Some ff \<Rightarrow>
          (case call_export ''proxy_on_delete'' ff [contextId] wasm of
             (Inl err, wasm') \<Rightarrow> (Some err, wasm')
           | (Inr _, wasm') \<Rightarrow> (None, wasm')))"

definition proxy_on_configure :: "wasmContext \<Rightarrow> int32 \<Rightarrow> int32 \<Rightarrow> (int32 \<times> go_error option) \<times> wasmContext" where
  "proxy_on_configure wasm rootContextId configurationSize =
     (case Exports (wasm_instance wasm) ''proxy_on_configure'' of
        None \<Rightarrow> ((0, Some (errors_New ''func proxy_on_configure not found'')), wasm)
      | Some ff \<Rightarrow>
          (case call_export ''proxy_on_configure'' ff [rootContextId, configurationSize] wasm of
             (Inl err, wasm') \<Rightarrow> ((0, Some err), wasm')
           | (Inr res, wasm') \<Rightarrow> ((ToI32 res, None), wasm')))"

definition proxy_on_tick :: "wasmContext \<Rightarrow> int32 \<Rightarrow> go_error option \<times> wasmContext" where
  "proxy_on_tick wasm rootContextId =
     (case Exports (wasm_instance wasm) ''proxy_on_tick'' of
        None \<Rightarrow> (Some (errors_New ''func proxy_on_tick not found''), wasm)
      | Some ff \<Rightarrow>
          (case call_export ''proxy_on_tick'' ff [rootContextId] wasm of
             (Inl err, wasm') \<Rightarrow> (Some err, wasm')
           | (Inr _, wasm') \<Rightarrow> (None, wasm')))"

definition proxy_on_new_connection :: "wasmContext \<Rightarrow> int32 \<Rightarrow> go_error option \<times> wasmContext" where
  "proxy_on_new_connection wasm contextId =
     (case Exports (wasm_instance wasm) ''proxy_on_new_connection'' of
        None \<Rightarrow> (Some (errors_New ''func proxy_on_new_connection not found''), wasm)
      | Some ff \<Rightarrow>
          (case call_export ''proxy_on_new_connection'' ff [contextId] wasm of
             (Inl err, wasm') \<Rightarrow> (Some err, wasm')
           | (Inr _, wasm') \<Rightarrow> (None, wasm')))"

definition proxy_on_downstream_data :: "wasmContext \<Rightarrow> int32 \<Rightarrow> int32 \<Rightarrow> int32 \<Rightarrow> (int32 \<times> go_error option) \<times> wasmContext" where
  "proxy_on_downstream_data wasm contextId dataLength endOfStream =
     (case Exports (wasm_instance wasm) ''proxy_on_downstream_data'' of
        None \<Rightarrow> ((0, Some (errors_New ''func proxy_on_downstream_data not found'')), wasm)
      | Some ff \<Rightarrow>
          (case call_export ''proxy_on_downstream_data'' ff [contextId, dataLength, endOfStream] wasm of
             (Inl err, wasm') \<Rightarrow> ((0, Some err), wasm')
           | (Inr res, wasm') \<Rightarrow> ((ToI32 res, None), wasm')))"

definition proxy_on_downstream_connection_close :: "wasmContext \<Rightarrow> int32 \<Rightarrow> int32 \<Rightarrow> go_error option \<times> wasmContext" where
  "proxy_on_downstream_connection_close wasm contextId closeType =
     (case Exports (wasm_instance wasm) ''proxy_on_downstream_connection_close'' of
        None \<Rightarrow> (Some (errors_New ''func proxy_on_downstream_connection_close not found''), wasm)
      | Some ff \<Rightarrow>
          (case call_export ''proxy_on_downstream_connection_close'' ff [contextId, closeType] wasm of
             (Inl err, wasm') \<Rightarrow> (Some err, wasm')
           | (Inr _, wasm') \<Rightarrow> (None, wasm')))"

definition proxy_on_upstream_data :: "wasmContext \<Rightarrow> int32 \<Rightarrow> int32 \<Rightarrow> int32 \<Rightarrow> (int32 \<times> go_error option) \<times> wasmContext" where
  "proxy_on_upstream_data wasm contextId dataLength endOfStream =
     (case Exports (wasm_instance wasm) ''proxy_on_upstream_data'' of
        None \<Rightarrow> ((0, Some (errors_New ''func proxy_on_upstream_data not found'')), wasm)
      | Some ff \<Rightarrow>
          (case call_export ''proxy_on_upstream_data'' ff [contextId, dataLength, endOfStream] wasm of
             (Inl err, wasm') \<Rightarrow> ((0, Some err), wasm')
           | (Inr res, wasm') \<Rightarrow> ((ToI32 res, None), wasm')))"

definition proxy_on_upstream_connection_close :: "wasmContext \<Rightarrow> int32 \<Rightarrow> int32 \<Rightarrow> go_error option \<times> wasmContext" where
  "proxy_on_upstream_connection_close wasm contextId closeType =
     (case Exports (wasm_instance wasm) ''proxy_on_upstream_connection_close'' of
        None \<Rightarrow> (Some (errors_New ''func proxy_on_upstream_connection_close not found''), wasm)
      | Some ff \<Rightarrow>
          (case call_export ''proxy_on_upstream_connection_close'' ff [contextId, closeType] wasm of
             (Inl err, wasm') \<Rightarrow> (Some err, wasm')
           | (Inr _, wasm') \<Rightarrow> (None, wasm')))"

definition proxy_on_request_headers :: "wasmContext \<Rightarrow> int32 \<Rightarrow> int32 \<Rightarrow> int32 \<Rightarrow> (int32 \<times> go_error option) \<times> wasmContext" where
  "proxy_on_request_headers wasm contextId headers endOfStream =
     (case Exports (wasm_instance wasm) ''proxy_on_request_headers'' of
        None \<Rightarrow> ((0, Some (errors_New ''func proxy_on_request_headers not found'')), wasm)
      | Some ff \<Rightarrow>
          (case call_export ''proxy_on_request_headers'' ff [contextId, headers, endOfStream] wasm of
             (Inl err, wasm') \<Rightarrow> ((0, Some err), wasm')
           | (Inr res, wasm') \<Rightarrow> ((ToI32 res, None), wasm')))"

definition proxy_on_request_body :: "wasmContext \<Rightarrow> int32 \<Rightarrow> int32 \<Rightarrow> int32 \<Rightarrow> (int32 \<times> go_error option) \<times> wasmContext" where
  "proxy_on_request_body wasm contextId bodyBufferLength endOfStream =
     (case Exports (wasm_instance wasm) ''proxy_on_request_body'' of
        None \<Rightarrow> ((0, Some (errors_New ''func proxy_on_request_body not found'')), wasm)
      | Some ff \<Rightarrow>
          (case call_export ''proxy_on_request_body'' ff [contextId, bodyBufferLength, endOfStream] wasm of
             (Inl err, wasm') \<Rightarrow> ((0, Some err), wasm')
           | (Inr res, wasm') \<Rightarrow> ((ToI32 res, None), wasm')))"

definition proxy_on_request_trailers :: "wasmContext \<Rightarrow> int32 \<Rightarrow> int32 \<Rightarrow> (int32 \<times> go_error option) \<times> wasmContext" where
  "proxy_on_request_trailers wasm contextId trailers =
     (case Exports (wasm_instance wasm) ''proxy_on_request_trailers'' of
        None \<Rightarrow> ((0, Some (errors_New ''func proxy_on_request_trailers not found'')), wasm)
      | Some ff \<Rightarrow>
          (case call_export ''proxy_on_request_trailers'' ff [contextId, trailers] wasm of
             (Inl err, wasm') \<Rightarrow> ((0, Some err), wasm')
           | (Inr res, wasm') \<Rightarrow> ((ToI32 res, None), wasm')))"

definition proxy_on_request_metadata :: "wasmContext \<Rightarrow> int32 \<Rightarrow> int32 \<Rightarrow> (int32 \<times> go_error option) \<times> wasmContext" where
  "proxy_on_request_metadata wasm contextId nElements =
     (case Exports (wasm_instance wasm) ''proxy_on_request_metadata'' of
        None \<Rightarrow> ((0, Some (errors_New ''func proxy_on_request_metadata not found'')), wasm)
      | Some ff \<Rightarrow>
          (case call_export ''proxy_on_request_metadata'' ff [contextId, nElements] wasm of
             (Inl err, wasm') \<Rightarrow> ((0, Some err), wasm')
           | (Inr res, wasm') \<Rightarrow> ((ToI32 res, None), wasm')))"

definition proxy_on_response_headers :: "wasmContext \<Rightarrow> int32 \<Rightarrow> int32 \<Rightarrow> int32 \<Rightarrow> (int32 \<times> go_error option) \<times> wasmContext" where
  "proxy_on_response_headers wasm contextId headers endOfStream =
     (case Exports (wasm_instance wasm) ''proxy_on_response_headers'' of
        None \<Rightarrow> ((0, Some (errors_New ''func proxy_on_response_headers not found'')), wasm)
      | Some ff \<Rightarrow>
          (case call_export ''proxy_on_response_headers'' ff [contextId, headers, endOfStream] wasm of
             (Inl err, wasm') \<Rightarrow> ((0, Some err), wasm')
           | (Inr res, wasm') \<Rightarrow> ((ToI32 res, None), wasm')))"

definition proxy_on_response_body :: "wasmContext \<Rightarrow> int32 \<Rightarrow> int32 \<Rightarrow> int32 \<Rightarrow> (int32 \<times> go_error option) \<times> wasmContext" where
  "proxy_on_response_body wasm contextId bodyBufferLength endOfStream =
     (case Exports (wasm_instance wasm) ''proxy_on_response_body'' of
        None \<Rightarrow> ((0, Some (errors_New ''func proxy_on_response_body not found'')), wasm)
      | Some ff \<Rightarrow>
          (case call_export ''proxy_on_response_body'' ff [contextId, bodyBufferLength, endOfStream] wasm of
             (Inl err, wasm') \<Rightarrow> ((0, Some err), wasm')
           | (Inr res, wasm') \<Rightarrow> ((ToI32 res, None), wasm')))"

definition proxy_on_response_trailers :: "wasmContext \<Rightarrow> int32 \<Rightarrow> int32 \<Rightarrow> (int32 \<times> go_error option) \<times> wasmContext" where
  "proxy_on_response_trailers wasm contextId trailers =
     (case Exports (wasm_instance wasm) ''proxy_on_response_trailers'' of
        None \<Rightarrow> ((0, Some (errors_New ''func proxy_on_response_trailers not found'')), wasm)
      | Some ff \<Rightarrow>
          (case call_export ''proxy_on_response_trailers'' ff [contextId, trailers] wasm of
             (Inl err, wasm') \<Rightarrow> ((0, Some err), wasm')
           | (Inr res, wasm') \<Rightarrow> ((ToI32 res, None), wasm')))"

definition proxy_on_response_metadata :: "wasmContext \<Rightarrow> int32 \<Rightarrow> int32 \<Rightarrow> (int32 \<times> go_error option) \<times> wasmContext" where
  "proxy_on_response_metadata wasm contextId nElements =
     (case Exports (wasm_instance wasm) ''proxy_on_response_metadata'' of
        None \<Rightarrow> ((0, Some (errors_New ''func proxy_on_response_metadata not found'')), wasm)
      | Some ff \<Rightarrow>
          (case call_export ''proxy_on_response_metadata'' ff [contextId, nElements] wasm of
             (Inl err, wasm') \<Rightarrow> ((0, Some err), wasm')
           | (Inr res, wasm') \<Rightarrow> ((ToI32 res, None), wasm')))"

definition proxy_on_http_call_response :: "wasmContext \<Rightarrow> int32 \<Rightarrow> int32 \<Rightarrow> int32 \<Rightarrow> int32 \<Rightarrow> int32 \<Rightarrow> go_error option \<times> wasmContext" where
  "proxy_on_http_call_response wasm contextId token headers bodySize trailers =
     (case Exports (wasm_instance wasm) ''proxy_on_http_call_response'' of
        None \<Rightarrow> (Some (errors_New ''func proxy_on_http_call_response not found''), wasm)
      | Some ff \<Rightarrow>
          (case call_export ''proxy_on_http_call_response'' ff [contextId, token, headers, bodySize, trailers] wasm of
             (Inl err, wasm') \<Rightarrow> (Some err, wasm')
           | (Inr _, wasm') \<Rightarrow> (None, wasm')))"

definition proxy_on_grpc_receive_initial_metadata :: "wasmContext \<Rightarrow> int32 \<Rightarrow> int32 \<Rightarrow> int32 \<Rightarrow> go_error option \<times> wasmContext" where
  "proxy_on_grpc_receive_initial_metadata wasm contextId token headers =
     (case Exports (wasm_instance wasm) ''proxy_on_grpc_receive_initial_metadata'' of
        None \<Rightarrow> (Some (errors_New ''func proxy_on_grpc_receive_initial_metadata not found''), wasm)
      | Some ff \<Rightarrow>
          (case call_export ''proxy_on_grpc_receive_initial_metadata'' ff [contextId, token, headers] wasm of
             (Inl err, wasm') \<Rightarrow> (Some err, wasm')
           | (Inr _, wasm') \<Rightarrow> (None, wasm')))"

definition proxy_on_grpc_trailing_metadata :: "wasmContext \<Rightarrow> int32 \<Rightarrow> int32 \<Rightarrow> int32 \<Rightarrow> go_error option \<times> wasmContext" where
  "proxy_on_grpc_trailing_metadata wasm contextId token trailers =
     (case Exports (wasm_instance wasm) ''proxy_on_grpc_trailing_metadata'' of
        None \<Rightarrow> (Some (errors_New ''func proxy_on_grpc_trailing_metadata not found''), wasm)
      | Some ff \<Rightarrow>
          (case call_export ''proxy_on_grpc_trailing_metadata'' ff [contextId, token, trailers] wasm of
             (Inl err, wasm') \<Rightarrow> (Some err, wasm')
           | (Inr _, wasm') \<Rightarrow> (None, wasm')))"

definition proxy_on_grpc_receive :: "wasmContext \<Rightarrow> int32 \<Rightarrow> int32 \<Rightarrow> int32 \<Rightarrow> go_error option \<times> wasmContext" where
  "proxy_on_grpc_receive wasm contextId token responseSize =
     (case Exports (wasm_instance wasm) ''proxy_on_grpc_receive'' of
        None \<Rightarrow> (Some (errors_New ''func proxy_on_grpc_receive not found''), wasm)
      | Some ff \<Rightarrow>
          (case call_export ''proxy_on_grpc_receive'' ff [contextId, token, responseSize] wasm of
             (Inl err, wasm') \<Rightarrow> (Some err, wasm')
           | (Inr _, wasm') \<Rightarrow> (None, wasm')))"

definition proxy_on_grpc_close :: "wasmContext \<Rightarrow> int32 \<Rightarrow> int32 \<Rightarrow> int32 \<Rightarrow> go_error option \<times> wasmContext" where
  "proxy_on_grpc_close wasm contextId token statusCode =
     (case Exports (wasm_instance wasm) ''proxy_on_grpc_close'' of
        None \<Rightarrow> (Some (errors_New ''func proxy_on_grpc_close not found''), wasm)
      | Some ff \<Rightarrow>
          (case call_export ''proxy_on_grpc_close'' ff [contextId, token, statusCode] wasm of
             (Inl err, wasm') \<Rightarrow> (Some err, wasm')
           | (Inr _, wasm') \<Rightarrow> (None, wasm')))"

definition proxy_on_queue_ready :: "wasmContext \<Rightarrow> int32 \<Rightarrow> int32 \<Rightarrow> go_error option \<times> wasmContext" where
  "proxy_on_queue_ready wasm rootContextId token =
     (case Exports (wasm_instance wasm) ''proxy_on_queue_ready'' of
        None \<Rightarrow> (Some (errors_New ''func proxy_on_queue_ready not found''), wasm)
      | Some ff \<Rightarrow>
          (case call_export ''proxy_on_queue_ready'' ff [rootContextId, token] wasm of
             (Inl err, wasm') \<Rightarrow> (Some err, wasm')
           | (Inr _, wasm') \<Rightarrow> (None, wasm')))"

definition proxy_validate_configuration :: "wasmContext \<Rightarrow> int32 \<Rightarrow> int32 \<Rightarrow> (int32 \<times> go_error option) \<times> wasmContext" where
  "proxy_validate_configuration wasm rootContextId configurationSize =
     (case Exports (wasm_instance wasm) ''proxy_validate_configuration'' of
        None \<Rightarrow> ((0, Some (errors_New ''func proxy_validate_configuration not found'')), wasm)
      | Some ff \<Rightarrow>
          (case call_export ''proxy_validate_configuration'' ff [rootContextId, configurationSize] wasm of
             (Inl err, wasm') \<Rightarrow> ((0, Some err), wasm')
           | (Inr res, wasm') \<Rightarrow> ((ToI32 res, None), wasm')))"

definition proxy_on_foreign_function :: "wasmContext \<Rightarrow> int32 \<Rightarrow> int32 \<Rightarrow> int32 \<Rightarrow> go_error option \<times> wasmContext" where
  "proxy_on_foreign_function wasm rootContextId functionId dataSize =
     (case Exports (wasm_instance wasm) ''proxy_on_foreign_function'' of
        None \<Rightarrow> (Some (errors_New ''func proxy_on_foreign_function not found''), wasm)
      | Some ff \<Rightarrow>
          (case call_export ''proxy_on_foreign_function'' ff [rootContextId, functionId, dataSize] wasm of
             (Inl err, wasm') \<Rightarrow> (Some err, wasm')
           | (Inr _, wasm') \<Rightarrow> (None, wasm')))"

text \<open>
  The contract of the dispatcher in the words of the specification, for a call that
  only has an effect and for a call that yields an action code: a missing export is an
  error naming the function and nothing is invoked; otherwise the export is invoked once
  with the arguments, an engine error comes back unchanged (with code 0), and success is
  no error (with the code of the result).
\<close>

definition abi_side_effect_only :: "string \<Rightarrow> int32 list \<Rightarrow> wasmContext \<Rightarrow> go_error option \<times> wasmContext" where
  "abi_side_effect_only name args wasm =
     (let inst = wasm_instance wasm;
          called = wasm\<lparr>wasm_instance := inst\<lparr>invoked := invoked inst @ [(name, args)]\<rparr>\<rparr>
      in case Exports inst name of
           None \<Rightarrow> (Some (errors_New (''func '' @ name @ '' not found'')), wasm)
         | Some ff \<Rightarrow>
             (case ff args of
                Inl err \<Rightarrow> (Some err, called)
              | Inr res \<Rightarrow> (None, called)))"

definition abi_action_code ::
  "string \<Rightarrow> int32 list \<Rightarrow> wasmContext \<Rightarrow> (int32 \<times> go_error option) \<times> wasmContext" where
  "abi_action_code name args wasm =
     (let inst = wasm_instance wasm;
          called = wasm\<lparr>wasm_instance := inst\<lparr>invoked := invoked inst @ [(name, args)]\<rparr>\<rparr>
      in case Exports inst name of
           None \<Rightarrow> ((0, Some (errors_New (''func '' @ name @ '' not found''))), wasm)
         | Some ff \<Rightarrow>
             (case ff args of
                Inl err \<Rightarrow> ((0, Some err), called)
              | Inr res \<Rightarrow> ((ToI32 res, None), called)))"

section \<open>Sample environments, configurations and states\<close>

text \<open>
  One engine (\<open>wasmer\<close>), a loader that finds bytes at two locations, a compiler that
  always succeeds, and instance creation that always succeeds, fails at its second call,
  or always fails. \<open>base\<close> names the handles an operation hands out.
\<close>

definition sample_engine :: "string \<Rightarrow> WasmVM option" where
  "sample_engine name = (if name = ''wasmer'' then Some 1 else None)"

definition sample_bytes :: "string \<Rightarrow> byte list" where
  "sample_bytes location =
     (if location = ''/etc/p1.wasm'' \<or> location = ''/etc/p2.wasm'' then [0, 97, 115, 109] else [])"

definition sample_module :: "WasmVM \<Rightarrow> byte list \<Rightarrow> WasmModule option" where
  "sample_module v b = Some 7"

definition all_succeed :: "nat \<Rightarrow> WasmModule \<Rightarrow> nat \<Rightarrow> WasmInstance option" where
  "all_succeed base m i = Some (base + i)"

definition second_fails :: "nat \<Rightarrow> WasmModule \<Rightarrow> nat \<Rightarrow> WasmInstance option" where
  "second_fails base m i = (if i = 1 then None else Some (base + i))"

definition all_fail :: "WasmModule \<Rightarrow> nat \<Rightarrow> WasmInstance option" where
  "all_fail m i = None"

definition sample_env :: "(WasmModule \<Rightarrow> nat \<Rightarrow> WasmInstance option) \<Rightarrow> env" where
  "sample_env mk =
     \<lparr>NumCPU = 4, GetWasmEngine = sample_engine, loadWasmBytesFromPath = sample_bytes,
      loadWasmBytesFromUrl = sample_bytes, NewModule = sample_module, NewInstance = mk\<rparr>"

definition sample_vm :: "string \<Rightarrow> WasmVmConfig" where
  "sample_vm path = \<lparr>Engine = ''wasmer'', Path = path, Url = [], Cpu = 0, Mem = 0\<rparr>"

definition config_p1 :: "int \<Rightarrow> WasmPluginConfig" where
  "config_p1 n = \<lparr>PluginName = ''p1'', InstanceNum = n, VmConfig = Some (sample_vm ''/etc/p1.wasm'')\<rparr>"

text \<open>The pool of \<open>p1\<close> with the given instances, cursor and occupancy.\<close>

definition pool_p1 :: "int \<Rightarrow> WasmInstance list \<Rightarrow> int32 \<Rightarrow> int32 \<Rightarrow> wasmPluginImpl" where
  "pool_p1 n ws cursor occ =
     \<lparr>wasmPluginImpl.config = config_p1 n, instanceNum = int (length ws), instanceWrappers = ws,
      instanceWrappersIdx = cursor, occupy = occ, vm = 1, wasmBytes = [0, 97, 115, 109],
      module = 7\<rparr>"

text \<open>The empty store, and the store after \<open>p1\<close> was registered with two instances.\<close>

definition blank_plugin :: wasmPluginImpl where
  "blank_plugin =
     \<lparr>wasmPluginImpl.config = \<lparr>PluginName = [], InstanceNum = 0, VmConfig = None\<rparr>,
      instanceNum = 0,
      instanceWrappers = [], instanceWrappersIdx = 0, occupy = 0, vm = 0, wasmBytes = [],
      module = 0\<rparr>"

definition blank_wrapper :: pluginWrapper where
  "blank_wrapper =
     \<lparr>plugin = None, config = \<lparr>PluginName = [], InstanceNum = 0, VmConfig = None\<rparr>,
      pluginHandlers = []\<rparr>"

definition world0 :: world where
  "world0 =
     \<lparr>pluginMap = Map.empty, wrappers = (\<lambda>r. blank_wrapper), plugins = (\<lambda>r. blank_plugin),
      nwrappers = 0, nplugins = 0, trace = []\<rparr>"

definition world_p1 :: "WasmPluginHandler list \<Rightarrow> world" where
  "world_p1 hs =
     \<lparr>pluginMap = [''p1'' \<mapsto> Wrapper 0],
      wrappers = (\<lambda>r. blank_wrapper)
        (0 := \<lparr>plugin = Some 0, config = config_p1 2, pluginHandlers = hs\<rparr>),
      plugins = (\<lambda>r. blank_plugin)(0 := pool_p1 2 [100, 101] 0 0),
      nwrappers = 1, nplugins = 1, trace = []\<rparr>"

text \<open>The events a call has added to the trace.\<close>

definition new_events :: "world \<Rightarrow> world \<Rightarrow> event list" where
  "new_events s s' = drop (length (trace s)) (trace s')"


text \<open>
  Two more configurations for \<open>p1\<close>: the module moved to another path, and an engine
  nobody registered.
\<close>

definition config_p1_moved :: WasmPluginConfig where
  "config_p1_moved =
     \<lparr>PluginName = ''p1'', InstanceNum = 2, VmConfig = Some (sample_vm ''/etc/p2.wasm'')\<rparr>"

definition config_p1_unknown_engine :: WasmPluginConfig where
  "config_p1_unknown_engine =
     \<lparr>PluginName = ''p1'', InstanceNum = 2,
      VmConfig = Some ((sample_vm ''/etc/p1.wasm'')\<lparr>Engine := ''v8''\<rparr>)\<rparr>"

text \<open>
  An instance that exports four functions: two return the code 1, two fail in the
  engine.
\<close>

definition export_ok :: "int32 list \<Rightarrow> go_error + Value" where
  "export_ok args = Inr \<lparr>ToI32 = 1\<rparr>"

definition export_trap :: "int32 list \<Rightarrow> go_error + Value" where
  "export_trap args = Inl (EngineError 3)"

definition sample_exports :: "string \<rightharpoonup> (int32 list \<Rightarrow> go_error + Value)" where
  "sample_exports =
     [''proxy_on_vm_start'' \<mapsto> export_ok, ''proxy_on_log'' \<mapsto> export_ok,
      ''proxy_on_done'' \<mapsto> export_trap, ''proxy_on_delete'' \<mapsto> export_trap]"

definition sample_ctx :: wasmContext where
  "sample_ctx = \<lparr>wasm_contextId = 1, wasm_instance = \<lparr>Exports = sample_exports, invoked = []\<rparr>\<rparr>"

text \<open>The invariant of the pool: the list is as long as \<open>instanceNum\<close> says.\<close>

definition pool_inv :: "wasmPluginImpl \<Rightarrow> bool" where
  "pool_inv w \<longleftrightarrow> int (length (instanceWrappers w)) = instanceNum w"

section \<open>The instance pool: invariant and rotation\<close>

lemma newInstance_loop_eq:
  "newInstance_loop mk i k acc = acc @ List.map_filter mk [i..<i + k]"
proof (induction k arbitrary: i acc)
  case 0
  then show ?case by (simp add: List.map_filter_simps)
next
  case (Suc k)
  have "[i..<i + Suc k] = i # [Suc i..<Suc i + k]"
    by (simp add: upt_conv_Cons)
  then show ?case
    using Suc.IH by (simp add: List.map_filter_simps split: option.splits)
qed

lemma EnsureInstanceNum_inv:
  "pool_inv w \<Longrightarrow> EnsureInstanceNum e num w = (Return n, w') \<Longrightarrow> pool_inv w' \<and> n = instanceNum w'"
  by (auto simp: EnsureInstanceNum_def pool_inv_def Let_def split: if_splits)

lemma EnsureInstanceNum_pos:
  "1 \<le> instanceNum w \<Longrightarrow> EnsureInstanceNum e num w = (Return n, w') \<Longrightarrow> 1 \<le> instanceNum w'"
  by (auto simp: EnsureInstanceNum_def Let_def split: if_splits)

lemma EnsureInstanceNum_returns_count:
  "EnsureInstanceNum e num w = (Return n, w') \<Longrightarrow> n = instanceNum w'"
  by (auto simp: EnsureInstanceNum_def Let_def split: if_splits)

lemma GetInstance_frame:
  "GetInstance w = (r, w') \<Longrightarrow>
   instanceWrappers w' = instanceWrappers w \<and> instanceNum w' = instanceNum w"
  by (auto simp: GetInstance_def Let_def split: if_splits)

lemma EnsureInstanceNum_fresh:
  assumes "EnsureInstanceNum e n \<lparr>wasmPluginImpl.config = c, instanceNum = 0, instanceWrappers = [],
       instanceWrappersIdx = x, occupy = y, vm = v, wasmBytes = b, module = m\<rparr> = (Return k, w)"
  shows "pool_inv w \<and> k = instanceNum w"
proof -
  have "pool_inv \<lparr>wasmPluginImpl.config = c, instanceNum = 0, instanceWrappers = [], instanceWrappersIdx = x,
       occupy = y, vm = v, wasmBytes = b, module = m\<rparr>"
    by (simp add: pool_inv_def)
  from EnsureInstanceNum_inv[OF this assms] show ?thesis .
qed

lemma NewWasmPlugin_inv:
  assumes "NewWasmPlugin e c = Return (Inr w)"
  shows "pool_inv w \<and> 1 \<le> instanceNum w"
proof -
  have "\<exists>c' n x y v b m k. EnsureInstanceNum e n \<lparr>wasmPluginImpl.config = c', instanceNum = 0,
          instanceWrappers = [], instanceWrappersIdx = x, occupy = y, vm = v, wasmBytes = b,
          module = m\<rparr> = (Return k, w) \<and> k \<noteq> 0"
    using assms unfolding NewWasmPlugin_def Let_def
    by (simp split: option.splits if_splits prod.splits outcome.splits) blast+
  then obtain c' n x y v b m k where
    en: "EnsureInstanceNum e n \<lparr>wasmPluginImpl.config = c', instanceNum = 0, instanceWrappers = [],
          instanceWrappersIdx = x, occupy = y, vm = v, wasmBytes = b, module = m\<rparr> = (Return k, w)"
    and k: "k \<noteq> 0" by blast
  from EnsureInstanceNum_fresh[OF en] have inv: "pool_inv w" and kw: "k = instanceNum w"
    by simp_all
  have "0 \<le> instanceNum w"
    using inv unfolding pool_inv_def by linarith
  then show ?thesis using inv k kw by simp
qed

lemma reachable_inv: "reachable w \<Longrightarrow> pool_inv w \<and> 1 \<le> instanceNum w"
proof (induction rule: reachable.induct)
  case (new e c w)
  then show ?case by (rule NewWasmPlugin_inv)
next
  case (ensure w e num n w')
  then show ?case using EnsureInstanceNum_inv EnsureInstanceNum_pos by blast
next
  case (get w i w')
  then show ?case using GetInstance_frame[OF get.hyps(2)] by (simp add: pool_inv_def)
next
  case (release w i)
  then show ?case by (simp add: ReleaseInstance_def pool_inv_def)
qed

lemma go_rem_nonneg: "0 \<le> a \<Longrightarrow> 0 < n \<Longrightarrow> go_rem a n = a mod n"
  by (cases "a = 0") (simp_all add: go_rem_def)

lemma GetInstance_ok:
  assumes "instanceWrappers w \<noteq> []" and "0 \<le> sint (instanceWrappersIdx w)"
  shows "GetInstance w =
    (Return (instanceWrappers w ! (nat (sint (instanceWrappersIdx w)) mod length (instanceWrappers w))),
     w\<lparr>instanceWrappersIdx := instanceWrappersIdx w + 1, occupy := occupy w + 1\<rparr>)"
proof -
  let ?n = "int (length (instanceWrappers w))"
  let ?c = "sint (instanceWrappersIdx w)"
  have n: "0 < ?n" using assms(1) by simp
  have r: "go_rem ?c ?n = ?c mod ?n" using assms(2) n by (rule go_rem_nonneg)
  have b: "\<not> (go_rem ?c ?n < 0 \<or> ?n \<le> go_rem ?c ?n)"
    unfolding r
    using Euclidean_Rings.pos_mod_sign[OF n, of ?c] Euclidean_Rings.pos_mod_bound[OF n, of ?c]
    by linarith
  have i: "nat (go_rem ?c ?n) = nat ?c mod length (instanceWrappers w)"
    unfolding r using assms(2) by (simp add: nat_mod_distrib)
  have z: "?n \<noteq> 0" using n by linarith
  show ?thesis unfolding GetInstance_def Let_def if_not_P[OF z] if_not_P[OF b] i ..
qed

lemma sint_succ: "sint (x :: int32) < 2147483647 \<Longrightarrow> sint (x + 1) = sint x + 1"
proof -
  assume a: "sint x < 2147483647"
  have l: "- (2 ^ 31) \<le> sint x" using sint_ge[of x] by simp
  have "sint (x + 1) = signed_take_bit 31 (sint x + 1)"
    by (simp add: sint_word_ariths)
  also have "\<dots> = sint x + 1"
    by (rule signed_take_bit_int_eq_self) (use a l in simp_all)
  finally show ?thesis .
qed

lemma GetInstance_times_ok:
  "instanceWrappers w \<noteq> [] \<Longrightarrow> 0 \<le> sint (instanceWrappersIdx w) \<Longrightarrow>
   sint (instanceWrappersIdx w) + int k < 2147483648 \<Longrightarrow>
   GetInstance_times k w =
     (Return (map (\<lambda>j. instanceWrappers w !
                ((nat (sint (instanceWrappersIdx w)) + j) mod length (instanceWrappers w))) [0..<k]),
      w\<lparr>instanceWrappersIdx := instanceWrappersIdx w + of_nat k, occupy := occupy w + of_nat k\<rparr>)"
proof (induction k arbitrary: w)
  case 0
  then show ?case by simp
next
  case (Suc k)
  let ?w' = "w\<lparr>instanceWrappersIdx := instanceWrappersIdx w + 1, occupy := occupy w + 1\<rparr>"
  have g: "GetInstance w =
      (Return (instanceWrappers w !
         (nat (sint (instanceWrappersIdx w)) mod length (instanceWrappers w))), ?w')"
    using Suc.prems(1,2) by (rule GetInstance_ok)
  have s: "sint (instanceWrappersIdx w + 1) = sint (instanceWrappersIdx w) + 1"
    using Suc.prems(3) by (intro sint_succ) simp
  have ih: "GetInstance_times k ?w' =
     (Return (map (\<lambda>j. instanceWrappers ?w' !
                ((nat (sint (instanceWrappersIdx ?w')) + j) mod length (instanceWrappers ?w'))) [0..<k]),
      ?w'\<lparr>instanceWrappersIdx := instanceWrappersIdx ?w' + of_nat k,
          occupy := occupy ?w' + of_nat k\<rparr>)"
    using Suc.prems s by (intro Suc.IH) simp_all
  have m: "map (\<lambda>j. instanceWrappers w !
               ((nat (sint (instanceWrappersIdx w)) + j) mod length (instanceWrappers w))) [0..<Suc k]
     = instanceWrappers w ! (nat (sint (instanceWrappersIdx w)) mod length (instanceWrappers w))
       # map (\<lambda>j. instanceWrappers w !
               ((nat (sint (instanceWrappersIdx w) + 1) + j) mod length (instanceWrappers w))) [0..<k]"
    using Suc.prems(2) by (simp add: map_upt_Suc nat_add_distrib del: upt_Suc)
  show ?case unfolding m using g ih s by (simp add: add.assoc add.commute)
qed

lemma rotate_as_map:
  "xs \<noteq> [] \<Longrightarrow> map (\<lambda>j. xs ! ((c + j) mod length xs)) [0..<length xs] = rotate c xs"
  by (rule nth_equalityI) (simp_all add: nth_rotate)

lemma sint_add_nat:
  "0 \<le> sint (c :: int32) \<Longrightarrow> sint c + int k < 2147483648 \<Longrightarrow>
   sint (c + of_nat k) = sint c + int k"
proof (induction k)
  case 0
  then show ?case by simp
next
  case (Suc k)
  then have ih: "sint (c + of_nat k) = sint c + int k" by simp
  have "sint (c + of_nat k + 1) = sint (c + of_nat k) + 1"
    by (rule sint_succ) (use ih Suc.prems in simp)
  then show ?case using ih by (simp add: ac_simps)
qed

text \<open>Acquiring and releasing \<open>k\<close> times moves the cursor by \<open>k\<close> and nothing else.\<close>

lemma reachable_get_release:
  assumes "reachable w" and "0 \<le> sint (instanceWrappersIdx w)"
    and "sint (instanceWrappersIdx w) + int k < 2147483648"
  shows "reachable (w\<lparr>instanceWrappersIdx := instanceWrappersIdx w + of_nat k\<rparr>)"
  using assms(3)
proof (induction k)
  case 0
  then show ?case using assms(1) by simp
next
  case (Suc k)
  let ?v = "w\<lparr>instanceWrappersIdx := instanceWrappersIdx w + of_nat k\<rparr>"
  let ?v' = "?v\<lparr>instanceWrappersIdx := instanceWrappersIdx ?v + 1, occupy := occupy ?v + 1\<rparr>"
  have rv: "reachable ?v" using Suc by simp
  have ne: "instanceWrappers ?v \<noteq> []"
    using reachable_inv[OF rv] by (auto simp: pool_inv_def)
  have c: "0 \<le> sint (instanceWrappersIdx ?v)"
    using sint_add_nat[OF assms(2), of k] Suc.prems assms(2) by simp
  from GetInstance_ok[OF ne c] obtain i where g: "GetInstance ?v = (Return i, ?v')"
    by blast
  have "reachable (ReleaseInstance i ?v')"
    by (rule reachable.release, rule reachable.get[OF rv g])
  then show ?case by (simp add: ReleaseInstance_def ac_simps)
qed

lemmas sample_defs = sample_env_def config_p1_def sample_vm_def sample_engine_def
  sample_bytes_def sample_module_def pool_p1_def all_succeed_def second_fails_def all_fail_def

lemma NewWasmPlugin_p1_3:
  "NewWasmPlugin (sample_env (all_succeed 100)) (config_p1 3)
     = Return (Inr (pool_p1 3 [100, 101, 102] 0 0))"
  by (simp add: NewWasmPlugin_def EnsureInstanceNum_def sample_defs Let_def eval_nat_numeral)

lemma reachable_cursor_max: "reachable (pool_p1 3 [100, 101, 102] 2147483647 0)"
proof -
  let ?p = "pool_p1 3 [100, 101, 102] 0 0"
  have r: "reachable ?p" using reachable.new[OF NewWasmPlugin_p1_3] .
  have "reachable (?p\<lparr>instanceWrappersIdx := instanceWrappersIdx ?p + of_nat 2147483647\<rparr>)"
    by (rule reachable_get_release[OF r]) (simp_all add: pool_p1_def)
  then show ?thesis by (simp add: pool_p1_def)
qed

subsection \<open>Claim C1: the round-robin law\<close>

text \<open>
  Without a wrap of the cursor the law holds: on a non-empty pool whose cursor is not
  negative and does not reach \<open>2^31\<close> within the next \<open>N\<close> calls, \<open>N\<close> consecutive
  calls of \<open>GetInstance\<close>, \<open>N\<close> the pool size, return the instance list rotated by the
  cursor, that is every instance once, and advance cursor and occupancy by \<open>N\<close>.
\<close>

theorem GetInstance_round_robin:
  assumes "instanceWrappers w \<noteq> []" and "0 \<le> sint (instanceWrappersIdx w)"
    and "sint (instanceWrappersIdx w) + int (length (instanceWrappers w)) < 2147483648"
  shows "GetInstance_times (length (instanceWrappers w)) w =
     (Return (rotate (nat (sint (instanceWrappersIdx w))) (instanceWrappers w)),
      w\<lparr>instanceWrappersIdx := instanceWrappersIdx w + of_nat (length (instanceWrappers w)),
        occupy := occupy w + of_nat (length (instanceWrappers w))\<rparr>)"
  using GetInstance_times_ok[OF assms] rotate_as_map[OF assms(1)] by simp

theorem GetInstance_round_robin_witness:
  "GetInstance_times 3 (pool_p1 3 [100, 101, 102] 4 0)
     = (Return [101, 102, 100], pool_p1 3 [100, 101, 102] 7 3)"
proof -
  let ?p = "pool_p1 3 [100, 101, 102] 4 0"
  have a: "instanceWrappers ?p \<noteq> []" by (simp add: pool_p1_def)
  have b: "0 \<le> sint (instanceWrappersIdx ?p)" by (simp add: pool_p1_def)
  have c: "sint (instanceWrappersIdx ?p) + int (length (instanceWrappers ?p)) < 2147483648"
    by (simp add: pool_p1_def)
  have l: "length (instanceWrappers ?p) = 3" by (simp add: pool_p1_def)
  have r: "rotate (nat (sint (instanceWrappersIdx ?p))) (instanceWrappers ?p) = [101, 102, 100]"
    by (simp add: pool_p1_def eval_nat_numeral)
  have f: "?p\<lparr>instanceWrappersIdx := instanceWrappersIdx ?p + of_nat 3, occupy := occupy ?p + of_nat 3\<rparr>
      = pool_p1 3 [100, 101, 102] 7 3"
    by (simp add: pool_p1_def)
  show ?thesis
    using GetInstance_round_robin[OF a b c] unfolding l r f .
qed

text \<open>
  Claim C1 says that for every \<open>N \<ge> 1\<close>, once \<open>EnsureInstanceNum(N)\<close> has returned
  \<open>N\<close>, \<open>N\<close> consecutive calls of \<open>GetInstance\<close> visit every instance once. The code
  breaks this when the 32-bit cursor wraps. The pool of three instances below is
  reachable: it is the pool \<open>NewWasmPlugin\<close> builds, after \<open>2^31 - 1\<close> acquisitions and
  releases. \<open>EnsureInstanceNum(3)\<close> returns 3 and changes nothing. The first
  \<open>GetInstance\<close> returns the instance at index \<open>(2^31 - 1) % 3 = 1\<close> and the cursor
  wraps to \<open>-2^31\<close>; the second computes the index \<open>-2^31 % 3 = -2\<close> and panics with an
  index out of range, so the three calls never complete.
\<close>

theorem GetInstance_cursor_overflow:
  "reachable (pool_p1 3 [100, 101, 102] 2147483647 0)
   \<and> EnsureInstanceNum (sample_env (all_succeed 100)) 3 (pool_p1 3 [100, 101, 102] 2147483647 0)
       = (Return 3, pool_p1 3 [100, 101, 102] 2147483647 0)
   \<and> GetInstance (pool_p1 3 [100, 101, 102] 2147483647 0)
       = (Return 101, pool_p1 3 [100, 101, 102] 2147483648 1)
   \<and> sint (instanceWrappersIdx (pool_p1 3 [100, 101, 102] 2147483648 1)) = - 2147483648
   \<and> GetInstance (pool_p1 3 [100, 101, 102] 2147483648 1)
       = (Panic IndexOutOfRange, pool_p1 3 [100, 101, 102] 2147483648 1)
   \<and> GetInstance_times 3 (pool_p1 3 [100, 101, 102] 2147483647 0)
       = (Panic IndexOutOfRange, pool_p1 3 [100, 101, 102] 2147483648 1)"
proof -
  have a: "EnsureInstanceNum (sample_env (all_succeed 100)) 3
             (pool_p1 3 [100, 101, 102] 2147483647 0)
       = (Return 3, pool_p1 3 [100, 101, 102] 2147483647 0)"
    by (simp add: EnsureInstanceNum_def pool_p1_def)
  have b: "GetInstance (pool_p1 3 [100, 101, 102] 2147483647 0)
       = (Return 101, pool_p1 3 [100, 101, 102] 2147483648 1)"
    by (simp add: GetInstance_def pool_p1_def go_rem_def Let_def)
  have s: "sint (instanceWrappersIdx (pool_p1 3 [100, 101, 102] 2147483648 1)) = - 2147483648"
    by (simp add: pool_p1_def)
  have c: "GetInstance (pool_p1 3 [100, 101, 102] 2147483648 1)
       = (Panic IndexOutOfRange, pool_p1 3 [100, 101, 102] 2147483648 1)"
    by (simp add: GetInstance_def pool_p1_def go_rem_def Let_def)
  have d: "GetInstance_times 3 (pool_p1 3 [100, 101, 102] 2147483647 0)
       = (Panic IndexOutOfRange, pool_p1 3 [100, 101, 102] 2147483648 1)"
    using b c by (simp add: numeral_3_eq_3)
  show ?thesis using reachable_cursor_max a b s c d by blast
qed

subsection \<open>Claim C2: no-op calls of \<open>EnsureInstanceNum\<close>\<close>




subsection \<open>Claim C3: the invariant of the plugin\<close>

text \<open>
  Claim C3: a plugin that \<open>NewWasmPlugin\<close> returns has as many instances in its list
  as \<open>instanceNum\<close> says, and at least one; and after every resize by
  \<open>EnsureInstanceNum\<close> that returns, on any plugin built and used through its
  operations, shrinking or growing, with or without failed creations, the list is again
  as long as \<open>instanceNum\<close>, which is the returned count and at least one.
\<close>

theorem pool_invariant:
  "(NewWasmPlugin e c = Return (Inr w0)
      \<longrightarrow> int (length (instanceWrappers w0)) = instanceNum w0 \<and> 1 \<le> instanceNum w0)
   \<and> (reachable w \<and> EnsureInstanceNum e' num w = (Return n, w')
      \<longrightarrow> int (length (instanceWrappers w')) = instanceNum w' \<and> n = instanceNum w'
          \<and> 1 \<le> instanceNum w')"
proof (rule conjI; rule impI)
  assume "NewWasmPlugin e c = Return (Inr w0)"
  from NewWasmPlugin_inv[OF this]
  show "int (length (instanceWrappers w0)) = instanceNum w0 \<and> 1 \<le> instanceNum w0"
    by (simp add: pool_inv_def)
next
  assume a: "reachable w \<and> EnsureInstanceNum e' num w = (Return n, w')"
  then have r: "reachable w'"
    by (blast intro: reachable.ensure)
  from reachable_inv[OF r] a
  show "int (length (instanceWrappers w')) = instanceNum w' \<and> n = instanceNum w'
      \<and> 1 \<le> instanceNum w'"
    by (auto simp: pool_inv_def dest: EnsureInstanceNum_returns_count)
qed

theorem pool_invariant_witness:
  "NewWasmPlugin (sample_env (second_fails 200)) (config_p1 3)
       = Return (Inr (pool_p1 3 [200, 202] 0 0))
   \<and> reachable (pool_p1 3 [200, 202] 0 0)
   \<and> EnsureInstanceNum (sample_env (second_fails 300)) 5 (pool_p1 3 [200, 202] 0 0)
       = (Return 4, pool_p1 3 [200, 202, 300, 302] 0 0)
   \<and> int (length (instanceWrappers (pool_p1 3 [200, 202] 0 0)))
       = instanceNum (pool_p1 3 [200, 202] 0 0)
   \<and> 1 \<le> instanceNum (pool_p1 3 [200, 202] 0 0)
   \<and> int (length (instanceWrappers (pool_p1 3 [200, 202, 300, 302] 0 0)))
       = instanceNum (pool_p1 3 [200, 202, 300, 302] 0 0)
   \<and> 4 = instanceNum (pool_p1 3 [200, 202, 300, 302] 0 0)"
proof -
  have n: "NewWasmPlugin (sample_env (second_fails 200)) (config_p1 3)
      = Return (Inr (pool_p1 3 [200, 202] 0 0))"
    by (simp add: NewWasmPlugin_def EnsureInstanceNum_def sample_defs Let_def eval_nat_numeral)
  have r: "reachable (pool_p1 3 [200, 202] 0 0)"
    using reachable.new[OF n] .
  have g: "EnsureInstanceNum (sample_env (second_fails 300)) 5 (pool_p1 3 [200, 202] 0 0)
       = (Return 4, pool_p1 3 [200, 202, 300, 302] 0 0)"
    by (simp add: EnsureInstanceNum_def sample_defs Let_def eval_nat_numeral)
  show ?thesis
    using pool_invariant[of "sample_env (second_fails 200)" "config_p1 3"
            "pool_p1 3 [200, 202] 0 0" "pool_p1 3 [200, 202] 0 0"
            "sample_env (second_fails 300)" 5 4 "pool_p1 3 [200, 202, 300, 302] 0 0"] n r g
    by simp
qed

section \<open>The wrapper: hot update\<close>

lemma emit_simps:
  "trace (emit evs s) = trace s @ evs"
  "wrappers (emit evs s) = wrappers s"
  "plugins (emit evs s) = plugins s"
  "pluginMap (emit evs s) = pluginMap s"
  "nwrappers (emit evs s) = nwrappers s"
  "nplugins (emit evs s) = nplugins s"
  by (simp_all add: emit_def)

lemma Update_rejected:
  "PluginName c = [] \<or> PluginName c \<noteq> PluginName (GetConfig w s) \<Longrightarrow> Update w c p s = (Return (), s)"
  by (simp add: Update_def)

lemma Update_swap:
  assumes "PluginName c \<noteq> []" and "PluginName c = PluginName (GetConfig w s)"
    and "GetPlugin w s = Some oldp" and "newp \<noteq> oldp"
  shows "Update w c (Some newp) s =
    (Return (),
     s\<lparr>wrappers := (wrappers s)(w := (wrappers s w)\<lparr>config := c, plugin := Some newp\<rparr>),
       trace := trace s
         @ map (\<lambda>h. OnConfigUpdate h c) (pluginHandlers (wrappers s w))
         @ map (\<lambda>h. OnPluginStart h (Some newp)) (pluginHandlers (wrappers s w))
         @ [PluginPublished w newp]
         @ map (\<lambda>h. OnPluginDestroy h (Some oldp)) (pluginHandlers (wrappers s w))
         @ [Clear oldp]\<rparr>)"
  using assms by (simp add: Update_def Let_def emit_def GetPlugin_def GetConfig_def)

text \<open>
  Claim C4: when \<open>Update\<close> swaps plugins (the name matches, the new plugin is not nil
  and is not the current one), the events it adds are, in this order: \<open>OnConfigUpdate\<close>
  to every observer, \<open>OnPluginStart(new)\<close> to every observer, the assignment that
  publishes the new plugin, \<open>OnPluginDestroy(old)\<close> to every observer, and \<open>Clear\<close>
  of the old plugin. So every observer is told of the start of the new plugin before
  the publication and of the destruction of the old one after it, and \<open>Clear\<close> comes
  after all destroy notifications.
\<close>

theorem Update_swap_order:
  assumes "PluginName c \<noteq> []" and "PluginName c = PluginName (GetConfig w s)"
    and "GetPlugin w s = Some oldp" and "newp \<noteq> oldp"
  shows "fst (Update w c (Some newp) s) = Return ()
    \<and> new_events s (snd (Update w c (Some newp) s)) =
         map (\<lambda>h. OnConfigUpdate h c) (pluginHandlers (wrappers s w))
         @ map (\<lambda>h. OnPluginStart h (Some newp)) (pluginHandlers (wrappers s w))
         @ [PluginPublished w newp]
         @ map (\<lambda>h. OnPluginDestroy h (Some oldp)) (pluginHandlers (wrappers s w))
         @ [Clear oldp]
    \<and> take (length (trace s)) (trace (snd (Update w c (Some newp) s))) = trace s
    \<and> GetPlugin w (snd (Update w c (Some newp) s)) = Some newp
    \<and> GetConfig w (snd (Update w c (Some newp) s)) = c
    \<and> pluginHandlers (wrappers (snd (Update w c (Some newp) s)) w) = pluginHandlers (wrappers s w)"
  unfolding Update_swap[OF assms] by (simp add: new_events_def GetPlugin_def GetConfig_def)

theorem Update_swap_order_witness:
  "fst (Update 0 (config_p1 5) (Some 1) (world_p1 [7, 8])) = Return ()
   \<and> new_events (world_p1 [7, 8]) (snd (Update 0 (config_p1 5) (Some 1) (world_p1 [7, 8]))) =
       [OnConfigUpdate 7 (config_p1 5), OnConfigUpdate 8 (config_p1 5),
        OnPluginStart 7 (Some 1), OnPluginStart 8 (Some 1),
        PluginPublished 0 1,
        OnPluginDestroy 7 (Some 0), OnPluginDestroy 8 (Some 0),
        Clear 0]
   \<and> GetPlugin 0 (snd (Update 0 (config_p1 5) (Some 1) (world_p1 [7, 8]))) = Some 1"
proof -
  have a: "PluginName (config_p1 5) \<noteq> []" by (simp add: config_p1_def)
  have b: "PluginName (config_p1 5) = PluginName (GetConfig 0 (world_p1 [7, 8]))"
    by (simp add: config_p1_def GetConfig_def world_p1_def)
  have c: "GetPlugin 0 (world_p1 [7, 8]) = Some 0" by (simp add: GetPlugin_def world_p1_def)
  have d: "(1::nat) \<noteq> 0" by simp
  have h: "pluginHandlers (wrappers (world_p1 [7, 8]) 0) = [7, 8]" by (simp add: world_p1_def)
  show ?thesis using Update_swap_order[OF a b c d] h by simp
qed

section \<open>The manager\<close>

lemma NewWasmPlugin_errors:
  "NewWasmPlugin e c = Return (Inl err) \<Longrightarrow>
   err = ErrEngineNotFound \<or> err = ErrWasmBytesLoad \<or> err = ErrModuleCreate \<or> err = ErrInstanceCreate"
  unfolding NewWasmPlugin_def Let_def
  by (simp split: option.splits if_splits prod.splits outcome.splits)

lemma NewWasmPlugin_alloc_Inl:
  "NewWasmPlugin e c = Return (Inl err) \<Longrightarrow>
   NewWasmPlugin_alloc e c s = (Return (Inl err), emit [Called_NewWasmPlugin c] s)"
  by (simp add: NewWasmPlugin_alloc_def Let_def)

lemma NewWasmPlugin_alloc_Inr:
  "NewWasmPlugin e c = Return (Inr w) \<Longrightarrow>
   NewWasmPlugin_alloc e c s =
     (Return (Inr (nplugins s)),
      (emit [Called_NewWasmPlugin c] s)\<lparr>plugins := (plugins s)(nplugins s := w), nplugins := Suc (nplugins s)\<rparr>)"
  by (simp add: NewWasmPlugin_alloc_def Let_def emit_def)

lemma NewWasmPlugin_alloc_Panic:
  "NewWasmPlugin e c = Panic p \<Longrightarrow>
   NewWasmPlugin_alloc e c s = (Panic p, emit [Called_NewWasmPlugin c] s)"
  by (simp add: NewWasmPlugin_alloc_def Let_def)

lemma NewWasmPlugin_alloc_error:
  "NewWasmPlugin_alloc e c s = (Return (Inl err), s') \<Longrightarrow> NewWasmPlugin e c = Return (Inl err)"
  by (auto simp: NewWasmPlugin_alloc_def Let_def split: outcome.splits sum.splits)

lemma updateWasm_same: "GetConfig pw s = c \<Longrightarrow> updateWasm e pw c s = (Return (), s)"
  by (simp add: updateWasm_def)

text \<open>
  Claim C8: \<open>AddOrUpdateWasm\<close> with a configuration equal to the one stored in the
  wrapper registered under its name leaves the whole store as it is: registry, wrappers
  (plugin, configuration, observers), plugin objects (instances, cursor, occupancy),
  and the trace, so no observer is notified and neither \<open>NewWasmPlugin\<close> nor
  \<open>EnsureInstanceNum\<close> is called; it returns no error.
\<close>

theorem AddOrUpdateWasm_same_config:
  "pluginMap s (PluginName c) = Some (Wrapper pw) \<Longrightarrow> GetConfig pw s = c \<Longrightarrow>
   snd (AddOrUpdateWasm e c s) = s
   \<and> (PluginName c \<noteq> [] \<longrightarrow> AddOrUpdateWasm e c s = (Return None, s))"
  by (simp add: AddOrUpdateWasm_def updateWasm_same)

theorem AddOrUpdateWasm_same_config_witness:
  "AddOrUpdateWasm (sample_env all_fail) (config_p1 2) (world_p1 [7]) = (Return None, world_p1 [7])"
proof -
  have m: "pluginMap (world_p1 [7]) (PluginName (config_p1 2)) = Some (Wrapper 0)"
    by (simp add: world_p1_def config_p1_def)
  have c: "GetConfig 0 (world_p1 [7]) = config_p1 2"
    by (simp add: GetConfig_def world_p1_def)
  show ?thesis
    using AddOrUpdateWasm_same_config[OF m c, of "sample_env all_fail"]
    by (simp add: config_p1_def)
qed

lemma AddOrUpdateWasm_empty_name_iff:
  "fst (AddOrUpdateWasm e c s) = Return (Some ErrEmptyPluginName) \<longleftrightarrow> PluginName c = []"
proof
  assume "PluginName c = []"
  then show "fst (AddOrUpdateWasm e c s) = Return (Some ErrEmptyPluginName)"
    by (simp add: AddOrUpdateWasm_def)
next
  assume a: "fst (AddOrUpdateWasm e c s) = Return (Some ErrEmptyPluginName)"
  show "PluginName c = []"
  proof (rule ccontr)
    assume n: "PluginName c \<noteq> []"
    show False
    proof (cases "pluginMap s (PluginName c)")
      case None
      then show ?thesis
        using a n NewWasmPlugin_errors[of e c ErrEmptyPluginName]
        by (auto simp: AddOrUpdateWasm_def Let_def split: prod.splits outcome.splits sum.splits option.splits
            dest!: NewWasmPlugin_alloc_error)
    next
      case (Some v)
      then show ?thesis
        using a n by (cases v) (auto simp: AddOrUpdateWasm_def split: prod.splits outcome.splits)
    qed
  qed
qed

text \<open>
  Claim C6: \<open>AddOrUpdateWasm\<close> returns the empty-plugin-name error exactly when the
  name of the configuration is empty. For a name that is not registered, when
  \<open>NewWasmPlugin\<close> fails with an error, that error (engine not found, bytes not
  loaded, module not created, no instance created) is what \<open>AddOrUpdateWasm\<close>
  returns, and the registry, the wrappers, the plugin objects and both allocation
  counters are as before.
\<close>

theorem AddOrUpdateWasm_errors:
  "(fst (AddOrUpdateWasm e c s) = Return (Some ErrEmptyPluginName) \<longleftrightarrow> PluginName c = [])
   \<and> (PluginName c \<noteq> [] \<and> pluginMap s (PluginName c) = None \<and> NewWasmPlugin e c = Return (Inl err)
        \<longrightarrow> fst (AddOrUpdateWasm e c s) = Return (Some err)
            \<and> (err = ErrEngineNotFound \<or> err = ErrWasmBytesLoad \<or> err = ErrModuleCreate
                \<or> err = ErrInstanceCreate)
            \<and> pluginMap (snd (AddOrUpdateWasm e c s)) = pluginMap s
            \<and> wrappers (snd (AddOrUpdateWasm e c s)) = wrappers s
            \<and> plugins (snd (AddOrUpdateWasm e c s)) = plugins s
            \<and> nwrappers (snd (AddOrUpdateWasm e c s)) = nwrappers s
            \<and> nplugins (snd (AddOrUpdateWasm e c s)) = nplugins s)"
proof (rule conjI)
  show "fst (AddOrUpdateWasm e c s) = Return (Some ErrEmptyPluginName) \<longleftrightarrow> PluginName c = []"
    by (rule AddOrUpdateWasm_empty_name_iff)
next
  show "PluginName c \<noteq> [] \<and> pluginMap s (PluginName c) = None \<and> NewWasmPlugin e c = Return (Inl err)
        \<longrightarrow> fst (AddOrUpdateWasm e c s) = Return (Some err)
            \<and> (err = ErrEngineNotFound \<or> err = ErrWasmBytesLoad \<or> err = ErrModuleCreate
                \<or> err = ErrInstanceCreate)
            \<and> pluginMap (snd (AddOrUpdateWasm e c s)) = pluginMap s
            \<and> wrappers (snd (AddOrUpdateWasm e c s)) = wrappers s
            \<and> plugins (snd (AddOrUpdateWasm e c s)) = plugins s
            \<and> nwrappers (snd (AddOrUpdateWasm e c s)) = nwrappers s
            \<and> nplugins (snd (AddOrUpdateWasm e c s)) = nplugins s"
  proof (rule impI)
    assume a: "PluginName c \<noteq> [] \<and> pluginMap s (PluginName c) = None \<and> NewWasmPlugin e c = Return (Inl err)"
    then have r: "AddOrUpdateWasm e c s = (Return (Some err), emit [Called_NewWasmPlugin c] s)"
      by (simp add: AddOrUpdateWasm_def NewWasmPlugin_alloc_Inl)
    from a have k: "err = ErrEngineNotFound \<or> err = ErrWasmBytesLoad \<or> err = ErrModuleCreate
                \<or> err = ErrInstanceCreate"
      by (blast dest: NewWasmPlugin_errors)
    show "fst (AddOrUpdateWasm e c s) = Return (Some err)
            \<and> (err = ErrEngineNotFound \<or> err = ErrWasmBytesLoad \<or> err = ErrModuleCreate
                \<or> err = ErrInstanceCreate)
            \<and> pluginMap (snd (AddOrUpdateWasm e c s)) = pluginMap s
            \<and> wrappers (snd (AddOrUpdateWasm e c s)) = wrappers s
            \<and> plugins (snd (AddOrUpdateWasm e c s)) = plugins s
            \<and> nwrappers (snd (AddOrUpdateWasm e c s)) = nwrappers s
            \<and> nplugins (snd (AddOrUpdateWasm e c s)) = nplugins s"
      unfolding r using k by (simp add: emit_simps)
  qed
qed

theorem AddOrUpdateWasm_errors_witness:
  "fst (AddOrUpdateWasm (sample_env all_fail) ((config_p1 2)\<lparr>PluginName := []\<rparr>) world0)
     = Return (Some ErrEmptyPluginName)
   \<and> fst (AddOrUpdateWasm (sample_env all_fail) (config_p1 2) world0) \<noteq> Return (Some ErrEmptyPluginName)
   \<and> NewWasmPlugin (sample_env all_fail) (config_p1 2) = Return (Inl ErrInstanceCreate)
   \<and> fst (AddOrUpdateWasm (sample_env all_fail) (config_p1 2) world0) = Return (Some ErrInstanceCreate)
   \<and> pluginMap (snd (AddOrUpdateWasm (sample_env all_fail) (config_p1 2) world0)) = Map.empty
   \<and> nwrappers (snd (AddOrUpdateWasm (sample_env all_fail) (config_p1 2) world0)) = 0
   \<and> nplugins (snd (AddOrUpdateWasm (sample_env all_fail) (config_p1 2) world0)) = 0"
proof -
  have f: "NewWasmPlugin (sample_env all_fail) (config_p1 2) = Return (Inl ErrInstanceCreate)"
    by (simp add: NewWasmPlugin_def EnsureInstanceNum_def sample_defs Let_def eval_nat_numeral)
  have n: "PluginName (config_p1 2) \<noteq> []" by (simp add: config_p1_def)
  have m: "pluginMap world0 (PluginName (config_p1 2)) = None" by (simp add: world0_def)
  have w: "pluginMap world0 = Map.empty" "nwrappers world0 = 0" "nplugins world0 = 0"
    by (simp_all add: world0_def)
  show ?thesis
    using AddOrUpdateWasm_errors[of "sample_env all_fail" "(config_p1 2)\<lparr>PluginName := []\<rparr>" world0]
      AddOrUpdateWasm_errors[of "sample_env all_fail" "config_p1 2" world0 ErrInstanceCreate]
      f n m w
    by simp
qed

subsection \<open>Reuse or rebuild\<close>

lemma shouldCreateNewPlugin_iff:
  "shouldCreateNewPlugin n ol \<longleftrightarrow>
     (\<exists>vn vo. VmConfig n = Some vn \<and> VmConfig ol = Some vo
        \<and> (Engine vn \<noteq> Engine vo \<or> Path vn \<noteq> Path vo \<or> Url vn \<noteq> Url vo))"
  by (auto simp: shouldCreateNewPlugin_def split: option.splits)






lemma EnsureInstanceNum_at_simps:
  "trace (snd (EnsureInstanceNum_at e p n s)) = trace s @ [Called_EnsureInstanceNum p n]"
  "wrappers (snd (EnsureInstanceNum_at e p n s)) = wrappers s"
  "nplugins (snd (EnsureInstanceNum_at e p n s)) = nplugins s"
  "pluginMap (snd (EnsureInstanceNum_at e p n s)) = pluginMap s"
  "nwrappers (snd (EnsureInstanceNum_at e p n s)) = nwrappers s"
  "plugins (snd (EnsureInstanceNum_at e p n s)) = (plugins s)(p := snd (EnsureInstanceNum e n (plugins s p)))"
  "fst (EnsureInstanceNum_at e p n s) = fst (EnsureInstanceNum e n (plugins s p))"
  by (simp_all add: EnsureInstanceNum_at_def Let_def emit_def split: prod.splits)

lemma NewWasmPlugin_alloc_simps:
  "trace (snd (NewWasmPlugin_alloc e c s)) = trace s @ [Called_NewWasmPlugin c]"
  "wrappers (snd (NewWasmPlugin_alloc e c s)) = wrappers s"
  "pluginMap (snd (NewWasmPlugin_alloc e c s)) = pluginMap s"
  "nwrappers (snd (NewWasmPlugin_alloc e c s)) = nwrappers s"
  by (simp_all add: NewWasmPlugin_alloc_def Let_def emit_def split: outcome.splits sum.splits)

text \<open>The two paths of updateWasm, by the decision.\<close>

lemma updateWasm_rebuild:
  assumes "newConfig \<noteq> GetConfig pw s" and "shouldCreateNewPlugin newConfig (GetConfig pw s)"
  shows "updateWasm e pw newConfig s =
     (case NewWasmPlugin_alloc e newConfig s of
        (Panic q, s1) \<Rightarrow> (Panic q, s1)
      | (Return (Inl err), s1) \<Rightarrow> (Return (), s1)
      | (Return (Inr newp), s1) \<Rightarrow> Update pw newConfig (Some newp) s1)"
proof -
  from assms(2) obtain vn where "VmConfig newConfig = Some vn"
    by (auto simp: shouldCreateNewPlugin_iff)
  then show ?thesis using assms
    by (simp add: updateWasm_def Let_def)
qed

lemma updateWasm_reuse:
  assumes "newConfig \<noteq> GetConfig pw s" and "\<not> shouldCreateNewPlugin newConfig (GetConfig pw s)"
    and "GetPlugin pw s = Some p"
  shows "updateWasm e pw newConfig s =
     (case EnsureInstanceNum_at e p (InstanceNum newConfig) s of
        (Panic q, s1) \<Rightarrow> (Panic q, s1)
      | (Return actualNum, s1) \<Rightarrow>
          if actualNum = 0 then (Return (), s1)
          else (case VmConfig newConfig of
                  None \<Rightarrow> (Panic NilPointerDereference, s1)
                | Some v \<Rightarrow> Update pw newConfig (Some p) s1))"
  using assms by (simp add: updateWasm_def Let_def)







subsection \<open>Errors for a registered name\<close>

lemmas world_defs = world_p1_def world0_def blank_wrapper_def blank_plugin_def

lemma register_p1:
  "AddOrUpdateWasm (sample_env (all_succeed 100)) (config_p1 2) world0
     = (Return None, (world_p1 [])\<lparr>trace := [Called_NewWasmPlugin (config_p1 2)]\<rparr>)"
  by (simp add: AddOrUpdateWasm_def NewWasmPlugin_alloc_def NewWasmPlugin_def EnsureInstanceNum_def
      emit_def sample_defs world_defs Let_def eval_nat_numeral)

text \<open>
  Claim C10 says that \<open>AddOrUpdateWasm\<close> returns a nil error for every registered
  name. The code breaks this for a new configuration without \<open>VmConfig\<close>:
  \<open>shouldCreateNewPlugin\<close> answers false for a nil \<open>VmConfig\<close>, the plugin is resized,
  and \<open>updateWasm\<close> then reads \<open>newConfig.VmConfig.Cpu\<close>. On the store in which \<open>p1\<close>
  was registered with two instances, the call for \<open>p1\<close> with three instances and a nil
  \<open>VmConfig\<close> does not return: it panics with a nil pointer dereference, after the
  pool was grown to three instances and before the wrapper's configuration was updated.
\<close>

theorem AddOrUpdateWasm_nil_VmConfig_panics:
  "AddOrUpdateWasm (sample_env (all_succeed 100)) (config_p1 2) world0
     = (Return None, (world_p1 [])\<lparr>trace := [Called_NewWasmPlugin (config_p1 2)]\<rparr>)
   \<and> fst (AddOrUpdateWasm (sample_env (all_succeed 200))
            \<lparr>PluginName = ''p1'', InstanceNum = 3, VmConfig = None\<rparr> (world_p1 []))
       = Panic NilPointerDereference
   \<and> plugins (snd (AddOrUpdateWasm (sample_env (all_succeed 200))
            \<lparr>PluginName = ''p1'', InstanceNum = 3, VmConfig = None\<rparr> (world_p1 []))) 0
       = pool_p1 2 [100, 101, 200] 0 0
   \<and> GetConfig 0 (snd (AddOrUpdateWasm (sample_env (all_succeed 200))
            \<lparr>PluginName = ''p1'', InstanceNum = 3, VmConfig = None\<rparr> (world_p1 [])))
       = config_p1 2"
proof -
  have a: "AddOrUpdateWasm (sample_env (all_succeed 200))
            \<lparr>PluginName = ''p1'', InstanceNum = 3, VmConfig = None\<rparr> (world_p1 [])
       = (Panic NilPointerDereference,
          (world_p1 [])\<lparr>plugins := (plugins (world_p1 []))(0 := pool_p1 2 [100, 101, 200] 0 0),
                         trace := [Called_EnsureInstanceNum 0 3]\<rparr>)"
    by (simp add: AddOrUpdateWasm_def updateWasm_def shouldCreateNewPlugin_def GetConfig_def
        GetPlugin_def EnsureInstanceNum_at_def EnsureInstanceNum_def emit_def sample_defs
        world_defs Let_def eval_nat_numeral)
  show ?thesis unfolding a using register_p1 by (simp add: GetConfig_def world_defs)
qed

lemma EnsureInstanceNum_no_panic:
  "pool_inv w \<Longrightarrow> \<exists>k. fst (EnsureInstanceNum e n w) = Return k"
  by (auto simp: EnsureInstanceNum_def pool_inv_def Let_def)

lemma EnsureInstanceNum_zero_unchanged:
  assumes "pool_inv w" and "EnsureInstanceNum e n w = (Return 0, w')"
  shows "w' = w"
proof (cases "n \<le> 0 \<or> n = instanceNum w")
  case True
  then show ?thesis using assms(2) by (auto simp: EnsureInstanceNum_def)
next
  case False
  have nn: "0 \<le> instanceNum w" using assms(1) unfolding pool_inv_def by linarith
  show ?thesis
  proof (cases "n < instanceNum w")
    case True
    then show ?thesis using False assms(2) by (auto simp: EnsureInstanceNum_def split: if_splits)
  next
    case g: False
    let ?xs = "newInstance_loop (NewInstance e (module w)) 0 (nat (n - instanceNum w)) []"
    have r: "instanceNum w + int (length ?xs) = 0"
      and w': "w' = w\<lparr>instanceWrappers := instanceWrappers w @ ?xs,
                       instanceNum := instanceNum w + int (length ?xs)\<rparr>"
      using False g assms(2) by (auto simp: EnsureInstanceNum_def Let_def)
    have l: "0 \<le> int (length ?xs)" by simp
    from r nn l have z: "instanceNum w = 0" and "int (length ?xs) = 0" by linarith+
    then have "?xs = []" by simp
    then show ?thesis unfolding w' using z by simp
  qed
qed

lemma EnsureInstanceNum_fresh_eq:
  "EnsureInstanceNum e n \<lparr>wasmPluginImpl.config = c', instanceNum = 0, instanceWrappers = [],
        instanceWrappersIdx = 0, occupy = 0, vm = v, wasmBytes = b, module = m\<rparr> =
     (Return (int (length (if n \<le> 0 then [] else newInstance_loop (NewInstance e m) 0 (nat n) []))),
      \<lparr>wasmPluginImpl.config = c',
       instanceNum = int (length (if n \<le> 0 then [] else newInstance_loop (NewInstance e m) 0 (nat n) [])),
       instanceWrappers = (if n \<le> 0 then [] else newInstance_loop (NewInstance e m) 0 (nat n) []),
       instanceWrappersIdx = 0, occupy = 0, vm = v, wasmBytes = b, module = m\<rparr>)"
  by (simp add: EnsureInstanceNum_def Let_def)

lemma NewWasmPlugin_no_panic:
  assumes "VmConfig c = Some vc"
  shows "NewWasmPlugin e c \<noteq> Panic q"
  using assms
  by (simp add: NewWasmPlugin_def EnsureInstanceNum_fresh_eq Let_def split: option.splits)

lemma Update_returns:
  "GetPlugin w s = Some p \<Longrightarrow> fst (Update w c q s) = Return ()"
  by (cases q) (auto simp: Update_def Let_def emit_def GetPlugin_def)

lemma updateWasm_returns:
  assumes "GetPlugin pw s = Some p" and "pool_inv (plugins s p)" and "VmConfig c = Some vc"
  shows "fst (updateWasm e pw c s) = Return ()"
proof (cases "c = GetConfig pw s")
  case True
  then show ?thesis by (simp add: updateWasm_same)
next
  case ne: False
  show ?thesis
  proof (cases "shouldCreateNewPlugin c (GetConfig pw s)")
    case True
    have w1: "GetPlugin pw (snd (NewWasmPlugin_alloc e c s)) = Some p"
      using assms(1) NewWasmPlugin_alloc_simps(2)[of e c s] by (simp add: GetPlugin_def)
    show ?thesis
    proof (cases "NewWasmPlugin e c")
      case (Panic q)
      then show ?thesis using NewWasmPlugin_no_panic[OF assms(3)] by blast
    next
      case (Return x)
      show ?thesis
      proof (cases x)
        case (Inl err)
        then show ?thesis
          using Return by (simp add: updateWasm_rebuild[OF ne True] NewWasmPlugin_alloc_Inl)
      next
        case (Inr w)
        have a: "NewWasmPlugin_alloc e c s = (Return (Inr (nplugins s)), snd (NewWasmPlugin_alloc e c s))"
          using Return Inr by (simp add: NewWasmPlugin_alloc_Inr)
        show ?thesis
          unfolding updateWasm_rebuild[OF ne True]
          by (subst a) (simp add: Update_returns[OF w1])
      qed
    qed
  next
    case False
    let ?n = "InstanceNum c"
    obtain k where k: "fst (EnsureInstanceNum e ?n (plugins s p)) = Return k"
      using EnsureInstanceNum_no_panic[OF assms(2)] by blast
    have a: "EnsureInstanceNum_at e p ?n s = (Return k, snd (EnsureInstanceNum_at e p ?n s))"
      using k EnsureInstanceNum_at_simps(7)[of e p ?n s] by (metis prod.collapse)
    have g1: "GetPlugin pw (snd (EnsureInstanceNum_at e p ?n s)) = Some p"
      using assms(1) EnsureInstanceNum_at_simps(2)[of e p ?n s] by (simp add: GetPlugin_def)
    show ?thesis
      unfolding updateWasm_reuse[OF ne False assms(1)]
      by (subst a) (simp add: Update_returns[OF g1] assms(3))
  qed
qed

lemma AddOrUpdateWasm_existing_returns_nil:
  assumes "PluginName c \<noteq> []" and "pluginMap s (PluginName c) = Some (Wrapper pw)"
    and "GetPlugin pw s = Some p" and "pool_inv (plugins s p)" and "VmConfig c = Some vc"
  shows "fst (AddOrUpdateWasm e c s) = Return None"
proof -
  obtain s1 where "updateWasm e pw c s = (Return (), s1)"
    using updateWasm_returns[OF assms(3,4,5), of e] by (metis prod.collapse)
  then show ?thesis using assms(1,2) by (simp add: AddOrUpdateWasm_def)
qed

lemma updateWasm_rebuild_abandoned:
  assumes "c \<noteq> GetConfig pw s" and "shouldCreateNewPlugin c (GetConfig pw s)"
    and "NewWasmPlugin e c = Return (Inl err)"
  shows "updateWasm e pw c s = (Return (), emit [Called_NewWasmPlugin c] s)"
  using assms(3) by (simp add: updateWasm_rebuild[OF assms(1,2)] NewWasmPlugin_alloc_Inl)

lemma updateWasm_reuse_abandoned:
  assumes "c \<noteq> GetConfig pw s" and "\<not> shouldCreateNewPlugin c (GetConfig pw s)"
    and "GetPlugin pw s = Some p" and "pool_inv (plugins s p)"
    and "fst (EnsureInstanceNum e (InstanceNum c) (plugins s p)) = Return 0"
  shows "updateWasm e pw c s = (Return (), emit [Called_EnsureInstanceNum p (InstanceNum c)] s)"
proof -
  obtain w' where w': "EnsureInstanceNum e (InstanceNum c) (plugins s p) = (Return 0, w')"
    using assms(5) by (metis prod.collapse)
  from EnsureInstanceNum_zero_unchanged[OF assms(4) this] have "w' = plugins s p" .
  then have "EnsureInstanceNum_at e p (InstanceNum c) s
      = (Return 0, emit [Called_EnsureInstanceNum p (InstanceNum c)] s)"
    using w' by (simp add: EnsureInstanceNum_at_def Let_def emit_def)
  then show ?thesis by (simp add: updateWasm_reuse[OF assms(1,2,3)])
qed

text \<open>
  What holds of claim C10: for a registered name whose entry is not a wrapper the error
  is \<open>ErrUnexpectedType\<close> and nothing changes. For a registered wrapper with a current
  plugin and a new configuration that has a \<open>VmConfig\<close>, \<open>AddOrUpdateWasm\<close> returns
  a nil error; when the rebuild fails in \<open>NewWasmPlugin\<close>, or the resize yields no
  instance, the store is as before but for the record of that call in the trace.
\<close>

theorem AddOrUpdateWasm_existing_name:
  "(PluginName c \<noteq> [] \<and> pluginMap s (PluginName c) = Some Other
      \<longrightarrow> AddOrUpdateWasm e c s = (Return (Some ErrUnexpectedType), s))
   \<and> (PluginName c \<noteq> [] \<and> pluginMap s (PluginName c) = Some (Wrapper pw)
        \<and> GetPlugin pw s = Some p \<and> pool_inv (plugins s p) \<and> VmConfig c = Some vc
      \<longrightarrow> fst (AddOrUpdateWasm e c s) = Return None
          \<and> (c \<noteq> GetConfig pw s \<and> shouldCreateNewPlugin c (GetConfig pw s)
                \<and> NewWasmPlugin e c = Return (Inl err)
              \<longrightarrow> snd (AddOrUpdateWasm e c s) = emit [Called_NewWasmPlugin c] s)
          \<and> (c \<noteq> GetConfig pw s \<and> \<not> shouldCreateNewPlugin c (GetConfig pw s)
                \<and> fst (EnsureInstanceNum e (InstanceNum c) (plugins s p)) = Return 0
              \<longrightarrow> snd (AddOrUpdateWasm e c s) = emit [Called_EnsureInstanceNum p (InstanceNum c)] s))"
proof (rule conjI; rule impI)
  assume "PluginName c \<noteq> [] \<and> pluginMap s (PluginName c) = Some Other"
  then show "AddOrUpdateWasm e c s = (Return (Some ErrUnexpectedType), s)"
    by (simp add: AddOrUpdateWasm_def)
next
  assume a: "PluginName c \<noteq> [] \<and> pluginMap s (PluginName c) = Some (Wrapper pw)
        \<and> GetPlugin pw s = Some p \<and> pool_inv (plugins s p) \<and> VmConfig c = Some vc"
  then have n: "PluginName c \<noteq> []" and m: "pluginMap s (PluginName c) = Some (Wrapper pw)"
    and g: "GetPlugin pw s = Some p" and i: "pool_inv (plugins s p)" and v: "VmConfig c = Some vc"
    by simp_all
  have r: "fst (AddOrUpdateWasm e c s) = Return None"
    by (rule AddOrUpdateWasm_existing_returns_nil[OF n m g i v])
  have s': "snd (AddOrUpdateWasm e c s) = snd (updateWasm e pw c s)"
    using n m by (simp add: AddOrUpdateWasm_def split: prod.splits outcome.splits)
  have x: "c \<noteq> GetConfig pw s \<and> shouldCreateNewPlugin c (GetConfig pw s)
                \<and> NewWasmPlugin e c = Return (Inl err)
              \<longrightarrow> snd (AddOrUpdateWasm e c s) = emit [Called_NewWasmPlugin c] s"
    unfolding s' by (simp add: updateWasm_rebuild_abandoned)
  have y: "c \<noteq> GetConfig pw s \<and> \<not> shouldCreateNewPlugin c (GetConfig pw s)
                \<and> fst (EnsureInstanceNum e (InstanceNum c) (plugins s p)) = Return 0
              \<longrightarrow> snd (AddOrUpdateWasm e c s) = emit [Called_EnsureInstanceNum p (InstanceNum c)] s"
    unfolding s' using g i by (simp add: updateWasm_reuse_abandoned)
  show "fst (AddOrUpdateWasm e c s) = Return None
          \<and> (c \<noteq> GetConfig pw s \<and> shouldCreateNewPlugin c (GetConfig pw s)
                \<and> NewWasmPlugin e c = Return (Inl err)
              \<longrightarrow> snd (AddOrUpdateWasm e c s) = emit [Called_NewWasmPlugin c] s)
          \<and> (c \<noteq> GetConfig pw s \<and> \<not> shouldCreateNewPlugin c (GetConfig pw s)
                \<and> fst (EnsureInstanceNum e (InstanceNum c) (plugins s p)) = Return 0
              \<longrightarrow> snd (AddOrUpdateWasm e c s) = emit [Called_EnsureInstanceNum p (InstanceNum c)] s)"
    using r x y by blast
qed

theorem AddOrUpdateWasm_existing_name_witness:
  "fst (AddOrUpdateWasm (sample_env all_fail) (config_p1 3) (world_p1 [7])) = Return None
   \<and> NewWasmPlugin (sample_env all_fail) config_p1_unknown_engine = Return (Inl ErrEngineNotFound)
   \<and> AddOrUpdateWasm (sample_env all_fail) config_p1_unknown_engine (world_p1 [7])
       = (Return None, emit [Called_NewWasmPlugin config_p1_unknown_engine] (world_p1 [7]))
   \<and> AddOrUpdateWasm (sample_env all_fail) (config_p1 3)
        ((world_p1 [7])\<lparr>pluginMap := [''p1'' \<mapsto> Other]\<rparr>)
       = (Return (Some ErrUnexpectedType), (world_p1 [7])\<lparr>pluginMap := [''p1'' \<mapsto> Other]\<rparr>)"
proof -
  have c: "GetConfig 0 (world_p1 [7]) = config_p1 2"
    by (simp add: GetConfig_def world_p1_def)
  have g: "GetPlugin 0 (world_p1 [7]) = Some 0"
    by (simp add: GetPlugin_def world_p1_def)
  have i: "pool_inv (plugins (world_p1 [7]) 0)"
    by (simp add: pool_inv_def world_p1_def pool_p1_def)
  have m: "pluginMap (world_p1 [7]) ''p1'' = Some (Wrapper 0)"
    by (simp add: world_p1_def)
  have f: "NewWasmPlugin (sample_env all_fail) config_p1_unknown_engine = Return (Inl ErrEngineNotFound)"
    by (simp add: NewWasmPlugin_def sample_defs config_p1_unknown_engine_def Let_def)
  have d: "shouldCreateNewPlugin config_p1_unknown_engine (config_p1 2)"
    by (simp add: shouldCreateNewPlugin_def config_p1_unknown_engine_def config_p1_def sample_vm_def)
  have ne: "config_p1_unknown_engine \<noteq> config_p1 2"
    by (simp add: config_p1_unknown_engine_def config_p1_def sample_vm_def)
  show ?thesis
    using AddOrUpdateWasm_existing_name[of "config_p1 3" "world_p1 [7]" "sample_env all_fail" 0 0
            "sample_vm ''/etc/p1.wasm''"]
      AddOrUpdateWasm_existing_name[of config_p1_unknown_engine "world_p1 [7]" "sample_env all_fail"
            0 0 "(sample_vm ''/etc/p1.wasm'')\<lparr>Engine := ''v8''\<rparr>" ErrEngineNotFound]
      AddOrUpdateWasm_existing_name[of "config_p1 3"
            "(world_p1 [7])\<lparr>pluginMap := [''p1'' \<mapsto> Other]\<rparr>" "sample_env all_fail"]
      c g i m f d ne
    by (simp add: config_p1_def config_p1_unknown_engine_def prod_eq_iff)
qed

subsection \<open>The name of a wrapper\<close>

lemma Update_keeps_name:
  "PluginName (GetConfig w' (snd (Update w c p s))) = PluginName (GetConfig w' s)"
  by (simp add: Update_def Let_def emit_def GetConfig_def GetPlugin_def split: option.splits)

lemma RegisterPluginHandler_keeps_config:
  "GetConfig w' (RegisterPluginHandler w h s) = GetConfig w' s"
  by (simp add: RegisterPluginHandler_def Let_def emit_def GetConfig_def split: option.splits)

lemma updateWasm_keeps_name:
  "PluginName (GetConfig w' (snd (updateWasm e pw c s))) = PluginName (GetConfig w' s)"
proof (cases "c = GetConfig pw s")
  case True
  then show ?thesis by (simp add: updateWasm_same)
next
  case ne: False
  show ?thesis
  proof (cases "shouldCreateNewPlugin c (GetConfig pw s)")
    case True
    obtain r s1 where a: "NewWasmPlugin_alloc e c s = (r, s1)"
      by (cases "NewWasmPlugin_alloc e c s")
    have w1: "GetConfig w' s1 = GetConfig w' s"
      using NewWasmPlugin_alloc_simps(2)[of e c s] a by (simp add: GetConfig_def)
    have "snd (updateWasm e pw c s) = s1
        \<or> (\<exists>newp. snd (updateWasm e pw c s) = snd (Update pw c (Some newp) s1))"
      unfolding updateWasm_rebuild[OF ne True] a
      by (cases r) (auto split: sum.splits)
    then show ?thesis using w1 Update_keeps_name by auto
  next
    case False
    show ?thesis
    proof (cases "GetPlugin pw s")
      case None
      then show ?thesis using ne False by (simp add: updateWasm_def Let_def)
    next
      case (Some p)
      obtain r s1 where a: "EnsureInstanceNum_at e p (InstanceNum c) s = (r, s1)"
        by (cases "EnsureInstanceNum_at e p (InstanceNum c) s")
      have w1: "GetConfig w' s1 = GetConfig w' s"
        using EnsureInstanceNum_at_simps(2)[of e p "InstanceNum c" s] a by (simp add: GetConfig_def)
      have "snd (updateWasm e pw c s) = s1
          \<or> snd (updateWasm e pw c s) = snd (Update pw c (Some p) s1)"
        unfolding updateWasm_reuse[OF ne False Some] a
        by (cases r; cases "VmConfig c") simp_all
      then show ?thesis using w1 Update_keeps_name by auto
    qed
  qed
qed

lemma AddOrUpdateWasm_keeps_name:
  assumes "w' < nwrappers s"
  shows "PluginName (GetConfig w' (snd (AddOrUpdateWasm e c s))) = PluginName (GetConfig w' s)"
proof (cases "PluginName c = []")
  case True
  then show ?thesis by (simp add: AddOrUpdateWasm_def)
next
  case n: False
  show ?thesis
  proof (cases "pluginMap s (PluginName c)")
    case None
    obtain r s1 where a: "NewWasmPlugin_alloc e c s = (r, s1)"
      by (cases "NewWasmPlugin_alloc e c s")
    have w1: "wrappers s1 = wrappers s" and n1: "nwrappers s1 = nwrappers s"
      and m1: "pluginMap s1 = pluginMap s"
      using NewWasmPlugin_alloc_simps(2,3,4)[of e c s] a by simp_all
    show ?thesis
      using n None a w1 n1 m1 assms
      by (cases r) (auto simp: AddOrUpdateWasm_def Let_def GetConfig_def split: sum.splits)
  next
    case (Some v)
    show ?thesis
    proof (cases v)
      case Other
      then show ?thesis using n Some by (simp add: AddOrUpdateWasm_def)
    next
      case (Wrapper pw)
      have "snd (AddOrUpdateWasm e c s) = snd (updateWasm e pw c s)"
        using n Some Wrapper by (simp add: AddOrUpdateWasm_def split: prod.splits outcome.splits)
      then show ?thesis by (simp add: updateWasm_keeps_name)
    qed
  qed
qed

text \<open>
  Claim C5: \<open>Update\<close> with an empty plugin name, or a name other than the wrapper's,
  returns without any effect: the store, with its wrappers and its trace, is the same.
  Hence the plugin name in a wrapper's configuration never changes: no call of
  \<open>Update\<close>, whatever its arguments, changes it in any wrapper, registering an observer
  does not touch the configuration, and \<open>AddOrUpdateWasm\<close> leaves the name of every
  wrapper that exists when it is called.
\<close>

theorem Update_name_fixed:
  "(PluginName c = [] \<or> PluginName c \<noteq> PluginName (GetConfig w s)
      \<longrightarrow> Update w c p s = (Return (), s))
   \<and> PluginName (GetConfig w' (snd (Update w c p s))) = PluginName (GetConfig w' s)
   \<and> GetConfig w' (RegisterPluginHandler w h s) = GetConfig w' s
   \<and> (w' < nwrappers s
        \<longrightarrow> PluginName (GetConfig w' (snd (AddOrUpdateWasm e c' s))) = PluginName (GetConfig w' s))"
  using Update_rejected[of c w s p] Update_keeps_name[of w' w c p s]
    RegisterPluginHandler_keeps_config[of w' w h s] AddOrUpdateWasm_keeps_name[of w' s e c']
  by blast

theorem Update_name_fixed_witness:
  "Update 0 ((config_p1 5)\<lparr>PluginName := ''p2''\<rparr>) (Some 1) (world_p1 [7, 8])
     = (Return (), world_p1 [7, 8])
   \<and> Update 0 ((config_p1 5)\<lparr>PluginName := []\<rparr>) (Some 1) (world_p1 [7, 8])
     = (Return (), world_p1 [7, 8])
   \<and> PluginName (GetConfig 0 (snd (Update 0 (config_p1 5) (Some 1) (world_p1 [7, 8])))) = ''p1''
   \<and> PluginName (GetConfig 0 (snd (AddOrUpdateWasm (sample_env (all_succeed 200)) config_p1_moved
         (world_p1 [7, 8])))) = ''p1''"
proof -
  have n: "PluginName (GetConfig 0 (world_p1 [7, 8])) = ''p1''"
    by (simp add: GetConfig_def world_p1_def config_p1_def)
  have k: "(0::nat) < nwrappers (world_p1 [7, 8])"
    by (simp add: world_p1_def)
  show ?thesis
    using Update_name_fixed[of "(config_p1 5)\<lparr>PluginName := ''p2''\<rparr>" 0 "world_p1 [7, 8]" "Some 1" 0]
      Update_name_fixed[of "(config_p1 5)\<lparr>PluginName := []\<rparr>" 0 "world_p1 [7, 8]" "Some 1" 0]
      Update_name_fixed[of "config_p1 5" 0 "world_p1 [7, 8]" "Some 1" 0 None
        "sample_env (all_succeed 200)" config_p1_moved] n k
    by simp
qed

section \<open>The dispatcher\<close>

lemma start_contract:
  "start wasm = abi_side_effect_only ''_start'' [] wasm"
  by (simp add: start_def abi_side_effect_only_def call_export_def Let_def
      split: option.splits sum.splits)

lemma proxy_on_context_create_contract:
  "proxy_on_context_create wasm contextId parentContextId = abi_side_effect_only ''proxy_on_context_create'' [contextId, parentContextId] wasm"
  by (simp add: proxy_on_context_create_def abi_side_effect_only_def call_export_def Let_def
      split: option.splits sum.splits)

lemma proxy_on_vm_start_contract:
  "proxy_on_vm_start wasm rootContextId configurationSize = abi_action_code ''proxy_on_vm_start'' [rootContextId, configurationSize] wasm"
  by (simp add: proxy_on_vm_start_def abi_action_code_def call_export_def Let_def
      split: option.splits sum.splits)

lemma proxy_on_done_contract:
  "proxy_on_done wasm contextId = abi_action_code ''proxy_on_done'' [contextId] wasm"
  by (simp add: proxy_on_done_def abi_action_code_def call_export_def Let_def
      split: option.splits sum.splits)

lemma proxy_on_log_contract:
  "proxy_on_log wasm contextId = abi_side_effect_only ''proxy_on_log'' [contextId] wasm"
  by (simp add: proxy_on_log_def abi_side_effect_only_def call_export_def Let_def
      split: option.splits sum.splits)

lemma proxy_on_delete_contract:
  "proxy_on_delete wasm contextId = abi_side_effect_only ''proxy_on_delete'' [contextId] wasm"
  by (simp add: proxy_on_delete_def abi_side_effect_only_def call_export_def Let_def
      split: option.splits sum.splits)

lemma proxy_on_configure_contract:
  "proxy_on_configure wasm rootContextId configurationSize = abi_action_code ''proxy_on_configure'' [rootContextId, configurationSize] wasm"
  by (simp add: proxy_on_configure_def abi_action_code_def call_export_def Let_def
      split: option.splits sum.splits)

lemma proxy_on_tick_contract:
  "proxy_on_tick wasm rootContextId = abi_side_effect_only ''proxy_on_tick'' [rootContextId] wasm"
  by (simp add: proxy_on_tick_def abi_side_effect_only_def call_export_def Let_def
      split: option.splits sum.splits)

lemma proxy_on_new_connection_contract:
  "proxy_on_new_connection wasm contextId = abi_side_effect_only ''proxy_on_new_connection'' [contextId] wasm"
  by (simp add: proxy_on_new_connection_def abi_side_effect_only_def call_export_def Let_def
      split: option.splits sum.splits)

lemma proxy_on_downstream_data_contract:
  "proxy_on_downstream_data wasm contextId dataLength endOfStream = abi_action_code ''proxy_on_downstream_data'' [contextId, dataLength, endOfStream] wasm"
  by (simp add: proxy_on_downstream_data_def abi_action_code_def call_export_def Let_def
      split: option.splits sum.splits)

lemma proxy_on_downstream_connection_close_contract:
  "proxy_on_downstream_connection_close wasm contextId closeType = abi_side_effect_only ''proxy_on_downstream_connection_close'' [contextId, closeType] wasm"
  by (simp add: proxy_on_downstream_connection_close_def abi_side_effect_only_def call_export_def Let_def
      split: option.splits sum.splits)

lemma proxy_on_upstream_data_contract:
  "proxy_on_upstream_data wasm contextId dataLength endOfStream = abi_action_code ''proxy_on_upstream_data'' [contextId, dataLength, endOfStream] wasm"
  by (simp add: proxy_on_upstream_data_def abi_action_code_def call_export_def Let_def
      split: option.splits sum.splits)

lemma proxy_on_upstream_connection_close_contract:
  "proxy_on_upstream_connection_close wasm contextId closeType = abi_side_effect_only ''proxy_on_upstream_connection_close'' [contextId, closeType] wasm"
  by (simp add: proxy_on_upstream_connection_close_def abi_side_effect_only_def call_export_def Let_def
      split: option.splits sum.splits)

lemma proxy_on_request_headers_contract:
  "proxy_on_request_headers wasm contextId headers endOfStream = abi_action_code ''proxy_on_request_headers'' [contextId, headers, endOfStream] wasm"
  by (simp add: proxy_on_request_headers_def abi_action_code_def call_export_def Let_def
      split: option.splits sum.splits)

lemma proxy_on_request_body_contract:
  "proxy_on_request_body wasm contextId bodyBufferLength endOfStream = abi_action_code ''proxy_on_request_body'' [contextId, bodyBufferLength, endOfStream] wasm"
  by (simp add: proxy_on_request_body_def abi_action_code_def call_export_def Let_def
      split: option.splits sum.splits)

lemma proxy_on_request_trailers_contract:
  "proxy_on_request_trailers wasm contextId trailers = abi_action_code ''proxy_on_request_trailers'' [contextId, trailers] wasm"
  by (simp add: proxy_on_request_trailers_def abi_action_code_def call_export_def Let_def
      split: option.splits sum.splits)

lemma proxy_on_request_metadata_contract:
  "proxy_on_request_metadata wasm contextId nElements = abi_action_code ''proxy_on_request_metadata'' [contextId, nElements] wasm"
  by (simp add: proxy_on_request_metadata_def abi_action_code_def call_export_def Let_def
      split: option.splits sum.splits)

lemma proxy_on_response_headers_contract:
  "proxy_on_response_headers wasm contextId headers endOfStream = abi_action_code ''proxy_on_response_headers'' [contextId, headers, endOfStream] wasm"
  by (simp add: proxy_on_response_headers_def abi_action_code_def call_export_def Let_def
      split: option.splits sum.splits)

lemma proxy_on_response_body_contract:
  "proxy_on_response_body wasm contextId bodyBufferLength endOfStream = abi_action_code ''proxy_on_response_body'' [contextId, bodyBufferLength, endOfStream] wasm"
  by (simp add: proxy_on_response_body_def abi_action_code_def call_export_def Let_def
      split: option.splits sum.splits)

lemma proxy_on_response_trailers_contract:
  "proxy_on_response_trailers wasm contextId trailers = abi_action_code ''proxy_on_response_trailers'' [contextId, trailers] wasm"
  by (simp add: proxy_on_response_trailers_def abi_action_code_def call_export_def Let_def
      split: option.splits sum.splits)

lemma proxy_on_response_metadata_contract:
  "proxy_on_response_metadata wasm contextId nElements = abi_action_code ''proxy_on_response_metadata'' [contextId, nElements] wasm"
  by (simp add: proxy_on_response_metadata_def abi_action_code_def call_export_def Let_def
      split: option.splits sum.splits)

lemma proxy_on_http_call_response_contract:
  "proxy_on_http_call_response wasm contextId token headers bodySize trailers = abi_side_effect_only ''proxy_on_http_call_response'' [contextId, token, headers, bodySize, trailers] wasm"
  by (simp add: proxy_on_http_call_response_def abi_side_effect_only_def call_export_def Let_def
      split: option.splits sum.splits)

lemma proxy_on_grpc_receive_initial_metadata_contract:
  "proxy_on_grpc_receive_initial_metadata wasm contextId token headers = abi_side_effect_only ''proxy_on_grpc_receive_initial_metadata'' [contextId, token, headers] wasm"
  by (simp add: proxy_on_grpc_receive_initial_metadata_def abi_side_effect_only_def call_export_def Let_def
      split: option.splits sum.splits)

lemma proxy_on_grpc_trailing_metadata_contract:
  "proxy_on_grpc_trailing_metadata wasm contextId token trailers = abi_side_effect_only ''proxy_on_grpc_trailing_metadata'' [contextId, token, trailers] wasm"
  by (simp add: proxy_on_grpc_trailing_metadata_def abi_side_effect_only_def call_export_def Let_def
      split: option.splits sum.splits)

lemma proxy_on_grpc_receive_contract:
  "proxy_on_grpc_receive wasm contextId token responseSize = abi_side_effect_only ''proxy_on_grpc_receive'' [contextId, token, responseSize] wasm"
  by (simp add: proxy_on_grpc_receive_def abi_side_effect_only_def call_export_def Let_def
      split: option.splits sum.splits)

lemma proxy_on_grpc_close_contract:
  "proxy_on_grpc_close wasm contextId token statusCode = abi_side_effect_only ''proxy_on_grpc_close'' [contextId, token, statusCode] wasm"
  by (simp add: proxy_on_grpc_close_def abi_side_effect_only_def call_export_def Let_def
      split: option.splits sum.splits)

lemma proxy_on_queue_ready_contract:
  "proxy_on_queue_ready wasm rootContextId token = abi_side_effect_only ''proxy_on_queue_ready'' [rootContextId, token] wasm"
  by (simp add: proxy_on_queue_ready_def abi_side_effect_only_def call_export_def Let_def
      split: option.splits sum.splits)

lemma proxy_validate_configuration_contract:
  "proxy_validate_configuration wasm rootContextId configurationSize = abi_action_code ''proxy_validate_configuration'' [rootContextId, configurationSize] wasm"
  by (simp add: proxy_validate_configuration_def abi_action_code_def call_export_def Let_def
      split: option.splits sum.splits)

lemma proxy_on_foreign_function_contract:
  "proxy_on_foreign_function wasm rootContextId functionId dataSize = abi_side_effect_only ''proxy_on_foreign_function'' [rootContextId, functionId, dataSize] wasm"
  by (simp add: proxy_on_foreign_function_def abi_side_effect_only_def call_export_def Let_def
      split: option.splits sum.splits)

lemma abi_absent:
  "Exports (wasm_instance wasm) name = None
      \<longrightarrow> abi_side_effect_only name args wasm
            = (Some (errors_New (''func '' @ name @ '' not found'')), wasm)
        \<and> abi_action_code name args wasm
            = ((0, Some (errors_New (''func '' @ name @ '' not found''))), wasm)"
  by (simp add: abi_side_effect_only_def abi_action_code_def Let_def)

lemma abi_engine_error:
  "Exports (wasm_instance wasm) name = Some ff \<and> ff args = Inl err
      \<longrightarrow> abi_side_effect_only name args wasm
            = (Some err, wasm\<lparr>wasm_instance := (wasm_instance wasm)\<lparr>invoked := invoked (wasm_instance wasm) @ [(name, args)]\<rparr>\<rparr>)
        \<and> abi_action_code name args wasm
            = ((0, Some err), wasm\<lparr>wasm_instance := (wasm_instance wasm)\<lparr>invoked := invoked (wasm_instance wasm) @ [(name, args)]\<rparr>\<rparr>)"
  by (simp add: abi_side_effect_only_def abi_action_code_def Let_def)

lemma abi_success:
  "Exports (wasm_instance wasm) name = Some ff \<and> ff args = Inr res
      \<longrightarrow> abi_side_effect_only name args wasm
            = (None, wasm\<lparr>wasm_instance := (wasm_instance wasm)\<lparr>invoked := invoked (wasm_instance wasm) @ [(name, args)]\<rparr>\<rparr>)
        \<and> abi_action_code name args wasm
            = ((ToI32 res, None), wasm\<lparr>wasm_instance := (wasm_instance wasm)\<lparr>invoked := invoked (wasm_instance wasm) @ [(name, args)]\<rparr>\<rparr>)"
  by (simp add: abi_side_effect_only_def abi_action_code_def Let_def)

text \<open>
  Claim C9: every method of the dispatcher behaves as the contract says for its kind,
  under its own name and with its arguments in order. The contract: if the export table
  has no entry under the name, the result is the error that names the function (and the
  code 0) and the extension is not invoked; if the export is there and the call fails,
  the engine's error is returned as it is (with the code 0); otherwise there is no
  error (and the code is the 32-bit result). In both present cases the export is invoked
  once.
\<close>

theorem dispatcher_contract:
  "start wasm = abi_side_effect_only ''_start'' [] wasm
   \<and> proxy_on_context_create wasm contextId parentContextId = abi_side_effect_only ''proxy_on_context_create'' [contextId, parentContextId] wasm
   \<and> proxy_on_vm_start wasm rootContextId configurationSize = abi_action_code ''proxy_on_vm_start'' [rootContextId, configurationSize] wasm
   \<and> proxy_on_done wasm contextId = abi_action_code ''proxy_on_done'' [contextId] wasm
   \<and> proxy_on_log wasm contextId = abi_side_effect_only ''proxy_on_log'' [contextId] wasm
   \<and> proxy_on_delete wasm contextId = abi_side_effect_only ''proxy_on_delete'' [contextId] wasm
   \<and> proxy_on_configure wasm rootContextId configurationSize = abi_action_code ''proxy_on_configure'' [rootContextId, configurationSize] wasm
   \<and> proxy_on_tick wasm rootContextId = abi_side_effect_only ''proxy_on_tick'' [rootContextId] wasm
   \<and> proxy_on_new_connection wasm contextId = abi_side_effect_only ''proxy_on_new_connection'' [contextId] wasm
   \<and> proxy_on_downstream_data wasm contextId dataLength endOfStream = abi_action_code ''proxy_on_downstream_data'' [contextId, dataLength, endOfStream] wasm
   \<and> proxy_on_downstream_connection_close wasm contextId closeType = abi_side_effect_only ''proxy_on_downstream_connection_close'' [contextId, closeType] wasm
   \<and> proxy_on_upstream_data wasm contextId dataLength endOfStream = abi_action_code ''proxy_on_upstream_data'' [contextId, dataLength, endOfStream] wasm
   \<and> proxy_on_upstream_connection_close wasm contextId closeType = abi_side_effect_only ''proxy_on_upstream_connection_close'' [contextId, closeType] wasm
   \<and> proxy_on_request_headers wasm contextId headers endOfStream = abi_action_code ''proxy_on_request_headers'' [contextId, headers, endOfStream] wasm
   \<and> proxy_on_request_body wasm contextId bodyBufferLength endOfStream = abi_action_code ''proxy_on_request_body'' [contextId, bodyBufferLength, endOfStream] wasm
   \<and> proxy_on_request_trailers wasm contextId trailers = abi_action_code ''proxy_on_request_trailers'' [contextId, trailers] wasm
   \<and> proxy_on_request_metadata wasm contextId nElements = abi_action_code ''proxy_on_request_metadata'' [contextId, nElements] wasm
   \<and> proxy_on_response_headers wasm contextId headers endOfStream = abi_action_code ''proxy_on_response_headers'' [contextId, headers, endOfStream] wasm
   \<and> proxy_on_response_body wasm contextId bodyBufferLength endOfStream = abi_action_code ''proxy_on_response_body'' [contextId, bodyBufferLength, endOfStream] wasm
   \<and> proxy_on_response_trailers wasm contextId trailers = abi_action_code ''proxy_on_response_trailers'' [contextId, trailers] wasm
   \<and> proxy_on_response_metadata wasm contextId nElements = abi_action_code ''proxy_on_response_metadata'' [contextId, nElements] wasm
   \<and> proxy_on_http_call_response wasm contextId token headers bodySize trailers = abi_side_effect_only ''proxy_on_http_call_response'' [contextId, token, headers, bodySize, trailers] wasm
   \<and> proxy_on_grpc_receive_initial_metadata wasm contextId token headers = abi_side_effect_only ''proxy_on_grpc_receive_initial_metadata'' [contextId, token, headers] wasm
   \<and> proxy_on_grpc_trailing_metadata wasm contextId token trailers = abi_side_effect_only ''proxy_on_grpc_trailing_metadata'' [contextId, token, trailers] wasm
   \<and> proxy_on_grpc_receive wasm contextId token responseSize = abi_side_effect_only ''proxy_on_grpc_receive'' [contextId, token, responseSize] wasm
   \<and> proxy_on_grpc_close wasm contextId token statusCode = abi_side_effect_only ''proxy_on_grpc_close'' [contextId, token, statusCode] wasm
   \<and> proxy_on_queue_ready wasm rootContextId token = abi_side_effect_only ''proxy_on_queue_ready'' [rootContextId, token] wasm
   \<and> proxy_validate_configuration wasm rootContextId configurationSize = abi_action_code ''proxy_validate_configuration'' [rootContextId, configurationSize] wasm
   \<and> proxy_on_foreign_function wasm rootContextId functionId dataSize = abi_side_effect_only ''proxy_on_foreign_function'' [rootContextId, functionId, dataSize] wasm
   \<and> (Exports (wasm_instance wasm) name = None
      \<longrightarrow> abi_side_effect_only name args wasm
            = (Some (errors_New (''func '' @ name @ '' not found'')), wasm)
        \<and> abi_action_code name args wasm
            = ((0, Some (errors_New (''func '' @ name @ '' not found''))), wasm))
   \<and> (Exports (wasm_instance wasm) name = Some ff \<and> ff args = Inl err
      \<longrightarrow> abi_side_effect_only name args wasm
            = (Some err, wasm\<lparr>wasm_instance := (wasm_instance wasm)\<lparr>invoked := invoked (wasm_instance wasm) @ [(name, args)]\<rparr>\<rparr>)
        \<and> abi_action_code name args wasm
            = ((0, Some err), wasm\<lparr>wasm_instance := (wasm_instance wasm)\<lparr>invoked := invoked (wasm_instance wasm) @ [(name, args)]\<rparr>\<rparr>))
   \<and> (Exports (wasm_instance wasm) name = Some ff \<and> ff args = Inr res
      \<longrightarrow> abi_side_effect_only name args wasm
            = (None, wasm\<lparr>wasm_instance := (wasm_instance wasm)\<lparr>invoked := invoked (wasm_instance wasm) @ [(name, args)]\<rparr>\<rparr>)
        \<and> abi_action_code name args wasm
            = ((ToI32 res, None), wasm\<lparr>wasm_instance := (wasm_instance wasm)\<lparr>invoked := invoked (wasm_instance wasm) @ [(name, args)]\<rparr>\<rparr>))"
  by (intro conjI)
    (rule start_contract,
     rule proxy_on_context_create_contract,
     rule proxy_on_vm_start_contract,
     rule proxy_on_done_contract,
     rule proxy_on_log_contract,
     rule proxy_on_delete_contract,
     rule proxy_on_configure_contract,
     rule proxy_on_tick_contract,
     rule proxy_on_new_connection_contract,
     rule proxy_on_downstream_data_contract,
     rule proxy_on_downstream_connection_close_contract,
     rule proxy_on_upstream_data_contract,
     rule proxy_on_upstream_connection_close_contract,
     rule proxy_on_request_headers_contract,
     rule proxy_on_request_body_contract,
     rule proxy_on_request_trailers_contract,
     rule proxy_on_request_metadata_contract,
     rule proxy_on_response_headers_contract,
     rule proxy_on_response_body_contract,
     rule proxy_on_response_trailers_contract,
     rule proxy_on_response_metadata_contract,
     rule proxy_on_http_call_response_contract,
     rule proxy_on_grpc_receive_initial_metadata_contract,
     rule proxy_on_grpc_trailing_metadata_contract,
     rule proxy_on_grpc_receive_contract,
     rule proxy_on_grpc_close_contract,
     rule proxy_on_queue_ready_contract,
     rule proxy_validate_configuration_contract,
     rule proxy_on_foreign_function_contract,
     rule abi_absent,
     rule abi_engine_error,
     rule abi_success)

theorem dispatcher_contract_witness:
  "proxy_on_tick sample_ctx 1 = (Some (errors_New ''func proxy_on_tick not found''), sample_ctx)
   \<and> proxy_on_configure sample_ctx 1 0
       = ((0, Some (errors_New ''func proxy_on_configure not found'')), sample_ctx)
   \<and> proxy_on_vm_start sample_ctx 1 0
       = ((1, None),
          sample_ctx\<lparr>wasm_instance := \<lparr>Exports = sample_exports,
                                        invoked = [(''proxy_on_vm_start'', [1, 0])]\<rparr>\<rparr>)
   \<and> proxy_on_done sample_ctx 5
       = ((0, Some (EngineError 3)),
          sample_ctx\<lparr>wasm_instance := \<lparr>Exports = sample_exports,
                                        invoked = [(''proxy_on_done'', [5])]\<rparr>\<rparr>)
   \<and> proxy_on_log sample_ctx 5
       = (None,
          sample_ctx\<lparr>wasm_instance := \<lparr>Exports = sample_exports,
                                        invoked = [(''proxy_on_log'', [5])]\<rparr>\<rparr>)
   \<and> proxy_on_delete sample_ctx 5
       = (Some (EngineError 3),
          sample_ctx\<lparr>wasm_instance := \<lparr>Exports = sample_exports,
                                        invoked = [(''proxy_on_delete'', [5])]\<rparr>\<rparr>)"
  using dispatcher_contract[where wasm = sample_ctx]
  by (simp add: abi_side_effect_only_def abi_action_code_def Let_def sample_ctx_def
      sample_exports_def export_ok_def export_trap_def)

end
